theory Spec2Isabelle
  imports Complex_Main "HOL-Library.Word"
begin

unbundle bit_operations_syntax

section \<open>The audio/MIDI engine of the plugin host (src/host/engine.cc)\<close>

text \<open>
  A shallow embedding of \<^verbatim>\<open>Engine\<close>: the object is a record, every member function takes
  the record and returns the updated one, and every call the engine makes on a collaborator
  (the plugin host, the RtAudio stream, the RtMidi port) is appended to a log kept in the
  record, so that "which calls were made, in which order, with which arguments" is a value.

  Conventions of the embedding:
  \<^item> \<^verbatim>\<open>unsigned int\<close> (\<^verbatim>\<open>frameCount\<close>, \<^verbatim>\<open>bufferSize\<close>) is \<open>32 word\<close>, \<^verbatim>\<open>uint8_t\<close> is \<open>8 word\<close>;
  \<^item> \<^verbatim>\<open>double\<close> is IEEE 754 binary64: a finite double is the \<open>real\<close> it denotes, and every
    operation of the source on doubles is the exact operation followed by rounding to the
    nearest double, ties to even, with infinities and NaN as values of their own; the
    arguments of type \<^verbatim>\<open>double\<close> and the sample rate are finite doubles; the conversion of a
    \<^verbatim>\<open>double\<close> to \<^verbatim>\<open>int32_t\<close> truncates towards zero and is a fault outside the range of
    \<^verbatim>\<open>int32_t\<close>, where C++ leaves it undefined; the sign of a zero is not kept (no operation
    of the source depends on it);
  \<^item> a \<^verbatim>\<open>float\<close> sample is a value of an arbitrary type \<open>'s\<close> with a zero (the engine only
    copies samples); a \<^verbatim>\<open>float *\<close> is \<open>'s list option\<close>: \<open>None\<close> is \<^verbatim>\<open>nullptr\<close>, \<open>Some xs\<close> a
    block of \<open>length xs\<close> samples; \<^verbatim>\<open>sizeof(float)\<close> is 4 and \<^verbatim>\<open>calloc\<close> is taken to succeed;
  \<^item> a failed \<^verbatim>\<open>assert\<close>, a read or write outside a block and an undefined conversion are
    faults: the function returns \<open>Inl\<close> of the fault and no state;
  \<^item> a C++ exception of a collaborator is an outcome \<open>Throws\<close> supplied by the environment;
  \<^item> the members are named after the source without the leading underscore, with the
    prefix \<open>e_\<close> (\<^verbatim>\<open>_state\<close> is \<open>e_state\<close>, \<^verbatim>\<open>_inputs[0]\<close> is \<open>e_inputs0\<close>);
  \<^item> the two threads are not modelled: every member function runs to its end before the
    next one starts, except that \<^verbatim>\<open>stop()\<close> is also given in its two halves, before and
    after the point where a callback in flight can observe \<^verbatim>\<open>kStateStopping\<close>;
  \<^item> the calls \<^verbatim>\<open>stop()\<close> makes (\<^verbatim>\<open>deactivate\<close>, \<^verbatim>\<open>stopStream\<close>, \<^verbatim>\<open>closeStream\<close>, \<^verbatim>\<open>closePort\<close>) are
    taken to return;
  \<^item> the idle timer with \<^verbatim>\<open>callPluginIdle()\<close> and the writes to \<^verbatim>\<open>std::cerr\<close> and \<^verbatim>\<open>std::clog\<close>
    are left out.
\<close>

subsection \<open>Data\<close>

type_synonym uint8_t = "8 word"
type_synonym uint32_t = "32 word"

datatype State = kStateStopped | kStateRunning | kStateStopping

definition MIDI_STATUS_NOTE_OFF :: uint8_t where "MIDI_STATUS_NOTE_OFF = 0x8"
definition MIDI_STATUS_NOTE_ON :: uint8_t where "MIDI_STATUS_NOTE_ON = 0x9"
definition MIDI_STATUS_NOTE_AT :: uint8_t where "MIDI_STATUS_NOTE_AT = 0xA"
definition MIDI_STATUS_CC :: uint8_t where "MIDI_STATUS_CC = 0xB"
definition MIDI_STATUS_PGM_CHANGE :: uint8_t where "MIDI_STATUS_PGM_CHANGE = 0xC"
definition MIDI_STATUS_CHANNEL_AT :: uint8_t where "MIDI_STATUS_CHANNEL_AT = 0xD"
definition MIDI_STATUS_PITCH_BEND :: uint8_t where "MIDI_STATUS_PITCH_BEND = 0xE"

datatype fault =
    AssertionFailed
  | SampleBufferOutOfBounds
  | MidiBufferOutOfBounds
  | ConversionOutOfRange
  | SignedOverflow

text \<open>
  The calls the engine makes on its collaborators. The plugin host's per-event calls carry
  the sample offset first, as in the source.
\<close>

datatype call =
    PluginDeactivate
  | PluginSetPorts nat nat
  | PluginActivate int uint32_t
  | PluginProcessBegin uint32_t
  | PluginProcess
  | PluginProcessNoteOn int uint8_t uint8_t uint8_t
  | PluginProcessNoteOff int uint8_t uint8_t uint8_t
  | PluginProcessCC int uint8_t uint8_t uint8_t
  | PluginProcessNoteAt int uint8_t uint8_t uint8_t
  | PluginProcessPitchBend int uint8_t int
  | PluginLoad
  | PluginSetParentWindow
  | PluginUnload
  | MidiOpenPort int
  | MidiIgnoreTypes
  | MidiClosePort
  | AudioOpenStream int int uint32_t
  | AudioStartStream
  | AudioStopStream
  | AudioCloseStream

record RtMidiIn =
  portOpen :: bool

record RtAudio =
  streamOpen :: bool

record 's Engine =
  e_state :: State
  e_inputs0 :: "'s list option"
  e_inputs1 :: "'s list option"
  e_outputs0 :: "'s list option"
  e_outputs1 :: "'s list option"
  e_midiIn :: "RtMidiIn option"
  e_audio :: "RtAudio option"
  e_nframes :: uint32_t
  e_sampleRate :: real
  e_steadyTime :: int
  e_calls :: "call list"

text \<open>The values \<^verbatim>\<open>start()\<close> reads from the settings.\<close>

record Settings =
  midiApi :: string
  midiIndex :: int
  audioApi :: string
  audioIndex :: int
  as_sampleRate :: int
  as_bufferSize :: int

text \<open>
  What the collaborators do when \<^verbatim>\<open>start()\<close> calls them: each call either throws or
  returns. \<^verbatim>\<open>openPort\<close> returns with the port open or not; \<^verbatim>\<open>openStream\<close> returns the block
  size the driver settled on, which it writes back through \<^verbatim>\<open>&bufferSize\<close>.
\<close>

datatype 'a outcome = Throws | Returns 'a

record StartEnv =
  midiCreate :: "unit outcome"
  midiOpenPort :: "bool outcome"
  audioCreate :: "unit outcome"
  audioOpenStream :: "uint32_t outcome"
  pluginSetPorts :: "unit outcome"
  pluginActivate :: "unit outcome"
  audioStartStream :: "unit outcome"

text \<open>
  The arguments of one \<^verbatim>\<open>audioCallback\<close> (the status flag is never read), with what the
  callback finds around it: \<open>midiQueue\<close> holds the messages queued in the MIDI port, each
  with the time stamp \<^verbatim>\<open>getMessage\<close> returns for it, and \<open>pluginProcess\<close> is what the plugin
  computes in this block.
\<close>

text \<open>
  Modelled from the spec: \<^verbatim>\<open>PluginHost::process()\<close> is not in the source; it "reads the input
  channels and writes the output channels in place". \<open>pluginProcess\<close> maps the four blocks
  (left and right input, left and right output) to what the plugin writes at the start
  of the left and of the right output block; it leaves the input blocks alone.
\<close>

record 's CallbackArgs =
  outputBuffer :: "'s list"
  inputBuffer :: "'s list option"
  frameCount :: uint32_t
  currentTime :: real
  midiQueue :: "(uint8_t list \<times> real) list"
  pluginProcess :: "'s list \<Rightarrow> 's list \<Rightarrow> 's list \<Rightarrow> 's list \<Rightarrow> 's list \<times> 's list"

record 's CallbackResult =
  engine :: "'s Engine"
  out :: "'s list"
  ret :: int

subsection \<open>Construction and buffers\<close>

text \<open>
  Modelled from the spec: the members' initial values are declared in \<^verbatim>\<open>engine.hh\<close>, which
  is not in the source. The engine starts Stopped, with no buffers and no devices, and
  its sample counter "never reset except at construction" starts at 0. The sample rate
  member is never assigned in \<^verbatim>\<open>engine.cc\<close>; it is a parameter here.
\<close>

definition newEngine :: "real \<Rightarrow> 's Engine" where
  "newEngine sr =
     \<lparr>e_state = kStateStopped, e_inputs0 = None, e_inputs1 = None,
      e_outputs0 = None, e_outputs1 = None, e_midiIn = None, e_audio = None,
      e_nframes = 0, e_sampleRate = sr, e_steadyTime = 0, e_calls = []\<rparr>"

definition log_call :: "call \<Rightarrow> 's Engine \<Rightarrow> 's Engine" where
  "log_call c e = e\<lparr>e_calls := e_calls e @ [c]\<rparr>"

definition freeBuffers :: "'s Engine \<Rightarrow> 's Engine" where
  "freeBuffers e =
     e\<lparr>e_inputs0 := None, e_inputs1 := None, e_outputs0 := None, e_outputs1 := None\<rparr>"

text \<open>\<^verbatim>\<open>(float *)std::calloc(n, sz)\<close>: \<open>n * sz\<close> zero bytes, read as 4-byte samples.\<close>

definition calloc :: "nat \<Rightarrow> nat \<Rightarrow> ('s::zero) list option" where
  "calloc n sz = Some (replicate ((n * sz) div 4) 0)"

definition allocateBuffers :: "('s::zero) Engine \<Rightarrow> nat \<Rightarrow> 's Engine" where
  "allocateBuffers e bufferSize =
     (freeBuffers e)\<lparr>e_inputs0 := calloc 1 bufferSize, e_inputs1 := calloc 1 bufferSize,
                     e_outputs0 := calloc 1 bufferSize, e_outputs1 := calloc 1 bufferSize\<rparr>"

subsection \<open>stop()\<close>

text \<open>
  The first half of \<^verbatim>\<open>stop()\<close>: the plugin is deactivated and a Running engine becomes
  Stopping. A callback in flight can run between the two halves.
\<close>

definition stop_signal :: "'s Engine \<Rightarrow> 's Engine" where
  "stop_signal e =
     (let e1 = log_call PluginDeactivate e
      in if e_state e1 = kStateRunning then e1\<lparr>e_state := kStateStopping\<rparr> else e1)"

definition stop_audio :: "'s Engine \<Rightarrow> 's Engine" where
  "stop_audio e =
     (case e_audio e of
        None \<Rightarrow> e
      | Some a \<Rightarrow>
          (if streamOpen a then log_call AudioCloseStream (log_call AudioStopStream e) else e)
          \<lparr>e_audio := None\<rparr>)"

definition stop_midi :: "'s Engine \<Rightarrow> 's Engine" where
  "stop_midi e =
     (case e_midiIn e of
        None \<Rightarrow> e
      | Some m \<Rightarrow> (if portOpen m then log_call MidiClosePort e else e)\<lparr>e_midiIn := None\<rparr>)"

definition stop_release :: "'s Engine \<Rightarrow> 's Engine" where
  "stop_release e = (freeBuffers (stop_midi (stop_audio e)))\<lparr>e_state := kStateStopped\<rparr>"

definition stop :: "'s Engine \<Rightarrow> 's Engine" where
  "stop e = stop_release (stop_signal e)"

subsection \<open>start()\<close>

text \<open>
  The MIDI part: the \<^verbatim>\<open>try\<close> block and its \<^verbatim>\<open>catch (...)\<close>. \<^verbatim>\<open>std::make_unique\<close> returns a
  non-null handle or throws, so the test \<^verbatim>\<open>if (_midiIn)\<close> always succeeds.
\<close>

definition start_midi :: "'s Engine \<Rightarrow> Settings \<Rightarrow> StartEnv \<Rightarrow> 's Engine" where
  "start_midi e s env =
     (let e1 = e\<lparr>e_midiIn := None\<rparr> in
      case midiCreate env of
        Throws \<Rightarrow> e1\<lparr>e_midiIn := None\<rparr>
      | Returns _ \<Rightarrow>
          (let e2 = log_call (MidiOpenPort (midiIndex s)) (e1\<lparr>e_midiIn := Some \<lparr>portOpen = False\<rparr>\<rparr>) in
           case midiOpenPort env of
             Throws \<Rightarrow> e2\<lparr>e_midiIn := None\<rparr>
           | Returns opened \<Rightarrow> log_call MidiIgnoreTypes (e2\<lparr>e_midiIn := Some \<lparr>portOpen = opened\<rparr>\<rparr>)))"

text \<open>
  \<^verbatim>\<open>unsigned int bufferSize = std::min<int>(32, as.bufferSize())\<close>: the minimum is taken on
  \<^verbatim>\<open>int\<close> and converted to \<^verbatim>\<open>unsigned int\<close>.
\<close>

definition requestedBufferSize :: "Settings \<Rightarrow> uint32_t" where
  "requestedBufferSize s = word_of_int (min 32 (as_bufferSize s))"

text \<open>The audio part up to the point where the first call on the audio driver is made.\<close>

definition start_audio_prepare :: "('s::zero) Engine \<Rightarrow> 's Engine" where
  "start_audio_prepare e = (allocateBuffers e (32 * 1024))\<lparr>e_audio := None\<rparr>"

text \<open>
  The rest of the audio part, on the engine \<open>start_audio_prepare\<close> leaves: the calls on the
  driver and the plugin host, any of which may throw into \<^verbatim>\<open>catch (...) { stop(); }\<close>.
\<close>

definition start_audio_open :: "'s Engine \<Rightarrow> Settings \<Rightarrow> StartEnv \<Rightarrow> 's Engine" where
  "start_audio_open e s env =
     (case audioCreate env of
        Throws \<Rightarrow> stop e
      | Returns _ \<Rightarrow>
          (let e1 = log_call (AudioOpenStream (audioIndex s) (as_sampleRate s) (requestedBufferSize s))
                      (e\<lparr>e_audio := Some \<lparr>streamOpen = False\<rparr>\<rparr>) in
           case audioOpenStream env of
             Throws \<Rightarrow> stop e1
           | Returns negotiated \<Rightarrow>
               (let e2 = e1\<lparr>e_audio := Some \<lparr>streamOpen = True\<rparr>, e_nframes := negotiated,
                             e_state := kStateRunning\<rparr>;
                    e3 = log_call (PluginSetPorts 2 2) e2 in
                case pluginSetPorts env of
                  Throws \<Rightarrow> stop e3
                | Returns _ \<Rightarrow>
                    (let e4 = log_call (PluginActivate (as_sampleRate s) (e_nframes e3)) e3 in
                     case pluginActivate env of
                       Throws \<Rightarrow> stop e4
                     | Returns _ \<Rightarrow>
                         (let e5 = log_call AudioStartStream e4 in
                          case audioStartStream env of
                            Throws \<Rightarrow> stop e5
                          | Returns _ \<Rightarrow> e5)))))"

definition start_audio :: "('s::zero) Engine \<Rightarrow> Settings \<Rightarrow> StartEnv \<Rightarrow> 's Engine" where
  "start_audio e s env = start_audio_open (start_audio_prepare e) s env"

definition start :: "('s::zero) Engine \<Rightarrow> Settings \<Rightarrow> StartEnv \<Rightarrow> fault + 's Engine" where
  "start e s env =
     (if e_state e \<noteq> kStateStopped then Inl AssertionFailed
      else Inr (start_audio (start_midi e s env) s env))"

subsection \<open>Arithmetic on double\<close>

text \<open>
  Rounding a real to the nearest double. A double has 53 significant bits: between \<open>2^e\<close>
  and \<open>2^(e+1)\<close> the doubles are the multiples of \<open>2^(e-52)\<close>, and \<open>e\<close> is not below -1022
  (below \<open>2^-1022\<close> the doubles are the multiples of \<open>2^-1074\<close>). \<open>halvings\<close> and \<open>doublings\<close>
  find \<open>e\<close>; their first argument bounds the search by the exponent range. \<open>pow2 k\<close> is
  \<open>2^k\<close> for an integer \<open>k\<close>, \<open>ulp x\<close> the distance between the doubles around \<open>x\<close>.
\<close>

definition pow2 :: "int \<Rightarrow> real" where
  "pow2 k = (if 0 \<le> k then 2 ^ nat k else 1 / 2 ^ nat (- k))"

primrec halvings :: "nat \<Rightarrow> real \<Rightarrow> nat" where
  "halvings 0 x = 0"
| "halvings (Suc n) x = (if x < 2 then 0 else Suc (halvings n (x / 2)))"

primrec doublings :: "nat \<Rightarrow> real \<Rightarrow> nat" where
  "doublings 0 x = 0"
| "doublings (Suc n) x = (if 1 \<le> x then 0 else Suc (doublings n (2 * x)))"

definition exponent_of :: "real \<Rightarrow> int" where
  "exponent_of x = (if 1 \<le> x then int (halvings 1024 x) else - int (doublings 1022 x))"

definition ulp :: "real \<Rightarrow> real" where
  "ulp x = pow2 (exponent_of \<bar>x\<bar> - 52)"

definition round_half_even :: "real \<Rightarrow> int" where
  "round_half_even y =
     (let f = \<lfloor>y\<rfloor>; r = y - real_of_int f
      in if r < 1 / 2 then f else if 1 / 2 < r then f + 1 else if even f then f else f + 1)"

definition round_double :: "real \<Rightarrow> real" where
  "round_double x = (if x = 0 then 0 else real_of_int (round_half_even (x / ulp x)) * ulp x)"

text \<open>
  A double: finite, an infinity or NaN. A rounded value of magnitude \<open>2^1024\<close> or more
  overflows to the infinity of its sign.
\<close>

datatype double = Finite real | PlusInfinity | MinusInfinity | NaN

definition to_double :: "real \<Rightarrow> double" where
  "to_double x =
     (let r = round_double x
      in if 2 ^ 1024 \<le> r then PlusInfinity else if r \<le> - (2 ^ 1024) then MinusInfinity else Finite r)"

text \<open>
  The four operations the callback performs on doubles, as IEEE 754 defines them:
  a double times a finite double, a double divided by \<open>1000.0\<close>, the comparison \<^verbatim>\<open>a >= y\<close>
  with a finite \<open>y\<close> (false for NaN), and a finite double minus a double.
\<close>

definition double_mul :: "double \<Rightarrow> real \<Rightarrow> double" where
  "double_mul a y =
     (case a of
        Finite x \<Rightarrow> to_double (x * y)
      | PlusInfinity \<Rightarrow> (if 0 < y then PlusInfinity else if y < 0 then MinusInfinity else NaN)
      | MinusInfinity \<Rightarrow> (if 0 < y then MinusInfinity else if y < 0 then PlusInfinity else NaN)
      | NaN \<Rightarrow> NaN)"

definition double_div_1000 :: "double \<Rightarrow> double" where
  "double_div_1000 a = (case a of Finite x \<Rightarrow> to_double (x / 1000) | _ \<Rightarrow> a)"

definition double_ge :: "double \<Rightarrow> real \<Rightarrow> bool" where
  "double_ge a y = (case a of Finite x \<Rightarrow> y \<le> x | PlusInfinity \<Rightarrow> True | _ \<Rightarrow> False)"

definition double_rsub :: "real \<Rightarrow> double \<Rightarrow> double" where
  "double_rsub y a =
     (case a of
        Finite x \<Rightarrow> to_double (y - x)
      | PlusInfinity \<Rightarrow> MinusInfinity
      | MinusInfinity \<Rightarrow> PlusInfinity
      | NaN \<Rightarrow> NaN)"

subsection \<open>The MIDI translator of audioCallback\<close>

text \<open>\<^verbatim>\<open>midiBuf[i]\<close> on a \<^verbatim>\<open>std::vector\<close>: no check in C++, undefined at or beyond \<^verbatim>\<open>size()\<close>.\<close>

definition vectorAt :: "uint8_t list \<Rightarrow> nat \<Rightarrow> fault + uint8_t" where
  "vectorAt v i = (if i < length v then Inr (v ! i) else Inl MidiBufferOutOfBounds)"

text \<open>\<^verbatim>\<open>(int32_t)\<close> of a double: truncation towards zero, undefined outside \<^verbatim>\<open>int32_t\<close>.\<close>

definition double_to_int32 :: "double \<Rightarrow> fault + int" where
  "double_to_int32 a =
     (case a of
        Finite x \<Rightarrow>
          (let t = (if 0 \<le> x then \<lfloor>x\<rfloor> else \<lceil>x\<rceil>)
           in if - (2 ^ 31) \<le> t \<and> t < 2 ^ 31 then Inr t else Inl ConversionOutOfRange)
      | _ \<Rightarrow> Inl ConversionOutOfRange)"

text \<open>
  \<^verbatim>\<open>double deltaMs = currentTime - msgTime;\<close> and
  \<^verbatim>\<open>double deltaSample = (deltaMs * thiz->_sampleRate) / 1000;\<close>
\<close>

definition deltaSampleOf :: "real \<Rightarrow> real \<Rightarrow> real \<Rightarrow> double" where
  "deltaSampleOf sr ct msgTime =
     (let deltaMs = to_double (ct - msgTime) in double_div_1000 (double_mul deltaMs sr))"

text \<open>
  \<^verbatim>\<open>if (deltaSample >= frameCount) deltaSample = frameCount - 1;\<close> and
  \<^verbatim>\<open>int32_t sampleOffset = frameCount - deltaSample;\<close> where \<^verbatim>\<open>frameCount - 1\<close> is computed on
  \<^verbatim>\<open>unsigned int\<close> and \<^verbatim>\<open>frameCount\<close> and \<^verbatim>\<open>frameCount - 1\<close> are converted to \<^verbatim>\<open>double\<close>, exactly.
\<close>

definition sampleOffsetOf :: "uint32_t \<Rightarrow> real \<Rightarrow> real \<Rightarrow> real \<Rightarrow> fault + int" where
  "sampleOffsetOf fc sr ct msgTime =
     (let deltaSample = deltaSampleOf sr ct msgTime;
          deltaSample' = (if double_ge deltaSample (real (unat fc))
                          then Finite (real (unat (fc - 1))) else deltaSample)
      in double_to_int32 (double_rsub (real (unat fc)) deltaSample'))"

text \<open>
  The body of the drain loop for one non-empty message: the four byte reads, the sample
  offset, and the \<^verbatim>\<open>switch\<close>; the result is the calls made on the plugin host (one or none).
\<close>

definition dispatch :: "uint8_t \<Rightarrow> int \<Rightarrow> uint8_t \<Rightarrow> uint8_t \<Rightarrow> uint8_t \<Rightarrow> call list" where
  "dispatch eventType sampleOffset channel data1 data2 =
     (if eventType = MIDI_STATUS_NOTE_ON then [PluginProcessNoteOn sampleOffset channel data1 data2]
      else if eventType = MIDI_STATUS_NOTE_OFF then [PluginProcessNoteOff sampleOffset channel data1 data2]
      else if eventType = MIDI_STATUS_CC then [PluginProcessCC sampleOffset channel data1 data2]
      else if eventType = MIDI_STATUS_NOTE_AT then [PluginProcessNoteAt sampleOffset channel data1 data2]
      else if eventType = MIDI_STATUS_CHANNEL_AT then []
      else if eventType = MIDI_STATUS_PITCH_BEND
        then [PluginProcessPitchBend sampleOffset channel (push_bit 7 (uint data2) OR uint data1)]
      else [])"

definition translate :: "uint32_t \<Rightarrow> real \<Rightarrow> real \<Rightarrow> uint8_t list \<Rightarrow> real \<Rightarrow> fault + call list" where
  "translate fc sr ct midiBuf msgTime =
     (case vectorAt midiBuf 0 of Inl f \<Rightarrow> Inl f | Inr b0 \<Rightarrow>
      (let eventType = drop_bit 4 b0; channel = b0 AND 0xf in
       case vectorAt midiBuf 1 of Inl f \<Rightarrow> Inl f | Inr data1 \<Rightarrow>
       (case vectorAt midiBuf 2 of Inl f \<Rightarrow> Inl f | Inr data2 \<Rightarrow>
        (case sampleOffsetOf fc sr ct msgTime of Inl f \<Rightarrow> Inl f | Inr sampleOffset \<Rightarrow>
           Inr (dispatch eventType sampleOffset channel data1 data2)))))"

text \<open>
  The drain loop over the port's queue: \<^verbatim>\<open>getMessage\<close> takes the next message, an empty
  one ends the loop.
\<close>

fun drainMidi :: "uint32_t \<Rightarrow> real \<Rightarrow> real \<Rightarrow> (uint8_t list \<times> real) list \<Rightarrow> fault + call list" where
  "drainMidi fc sr ct [] = Inr []"
| "drainMidi fc sr ct ((midiBuf, msgTime) # q) =
     (if midiBuf = [] then Inr []
      else case translate fc sr ct midiBuf msgTime of
             Inl f \<Rightarrow> Inl f
           | Inr cs \<Rightarrow> (case drainMidi fc sr ct q of Inl f \<Rightarrow> Inl f | Inr cs' \<Rightarrow> Inr (cs @ cs')))"


subsection \<open>audioCallback\<close>

text \<open>
  The two copy loops \<^verbatim>\<open>for (int i = 0; i < frameCount; ++i)\<close>; the first argument is the
  number of rounds left, the second is \<open>i\<close>. The index \<^verbatim>\<open>2 * i + 1\<close> is computed on \<^verbatim>\<open>int\<close>.
\<close>

definition INT_MAX :: nat where
  "INT_MAX = 2147483647"

fun copyInputLoop :: "nat \<Rightarrow> nat \<Rightarrow> 's list \<Rightarrow> 's list \<Rightarrow> 's list \<Rightarrow> fault + ('s list \<times> 's list)" where
  "copyInputLoop 0 i inb l r = Inr (l, r)"
| "copyInputLoop (Suc k) i inb l r =
     (if INT_MAX < 2 * i + 1 then Inl SignedOverflow
      else if 2 * i + 1 < length inb \<and> i < length l \<and> i < length r
        then copyInputLoop k (Suc i) inb (l[i := inb ! (2 * i)]) (r[i := inb ! (2 * i + 1)])
      else Inl SampleBufferOutOfBounds)"

fun copyOutputLoop :: "nat \<Rightarrow> nat \<Rightarrow> 's list \<Rightarrow> 's list \<Rightarrow> 's list \<Rightarrow> fault + 's list" where
  "copyOutputLoop 0 i l r ob = Inr ob"
| "copyOutputLoop (Suc k) i l r ob =
     (if INT_MAX < 2 * i + 1 then Inl SignedOverflow
      else if 2 * i + 1 < length ob \<and> i < length l \<and> i < length r
        then copyOutputLoop k (Suc i) l r (ob[2 * i := l ! i, 2 * i + 1 := r ! i])
      else Inl SampleBufferOutOfBounds)"

text \<open>What a block of memory holds after \<open>new\<close> has been written at its start.\<close>

definition overwrite :: "'s list \<Rightarrow> 's list \<Rightarrow> 's list" where
  "overwrite old new = take (length old) new @ drop (length new) old"

definition cb_asserts :: "'s Engine \<Rightarrow> 's CallbackArgs \<Rightarrow> bool" where
  "cb_asserts e a =
     (e_inputs0 e \<noteq> None \<and> e_inputs1 e \<noteq> None \<and> e_outputs0 e \<noteq> None \<and> e_outputs1 e \<noteq> None
      \<and> frameCount a = e_nframes e)"

definition cb_copyInput :: "'s Engine \<Rightarrow> 's CallbackArgs \<Rightarrow> fault + 's Engine" where
  "cb_copyInput e a =
     (case inputBuffer a of
        None \<Rightarrow> Inr e
      | Some inb \<Rightarrow>
          (case copyInputLoop (unat (frameCount a)) 0 inb (the (e_inputs0 e)) (the (e_inputs1 e)) of
             Inl f \<Rightarrow> Inl f
           | Inr (l, r) \<Rightarrow> Inr (e\<lparr>e_inputs0 := Some l, e_inputs1 := Some r\<rparr>)))"

definition cb_midi :: "'s Engine \<Rightarrow> 's CallbackArgs \<Rightarrow> fault + 's Engine" where
  "cb_midi e a =
     (case e_midiIn e of
        None \<Rightarrow> Inr e
      | Some m \<Rightarrow>
          if portOpen m
          then (case drainMidi (frameCount a) (e_sampleRate e) (currentTime a) (midiQueue a) of
                  Inl f \<Rightarrow> Inl f
                | Inr cs \<Rightarrow> Inr (e\<lparr>e_calls := e_calls e @ cs\<rparr>))
          else Inr e)"

text \<open>
  \<^verbatim>\<open>thiz->_pluginHost->process()\<close>: the plugin's samples replace the start of the two output
  blocks, whose sizes stay as they are.
\<close>

definition cb_process :: "'s Engine \<Rightarrow> 's CallbackArgs \<Rightarrow> 's Engine" where
  "cb_process e a =
     (let w = pluginProcess a (the (e_inputs0 e)) (the (e_inputs1 e))
                (the (e_outputs0 e)) (the (e_outputs1 e))
      in (log_call PluginProcess e)
           \<lparr>e_outputs0 := Some (overwrite (the (e_outputs0 e)) (fst w)),
            e_outputs1 := Some (overwrite (the (e_outputs1 e)) (snd w))\<rparr>)"

definition cb_copyOutput :: "'s Engine \<Rightarrow> 's CallbackArgs \<Rightarrow> fault + 's list" where
  "cb_copyOutput e a =
     copyOutputLoop (unat (frameCount a)) 0 (the (e_outputs0 e)) (the (e_outputs1 e)) (outputBuffer a)"

text \<open>
  The counter and the final \<^verbatim>\<open>switch\<close>. In the \<^verbatim>\<open>default\<close> branch \<^verbatim>\<open>assert(false)\<close> aborts
  (a build without assertions returns 2 there).
\<close>

definition cb_finish :: "'s Engine \<Rightarrow> 's CallbackArgs \<Rightarrow> 's list \<Rightarrow> fault + 's CallbackResult" where
  "cb_finish e a ob =
     (let e1 = e\<lparr>e_steadyTime := e_steadyTime e + uint (frameCount a)\<rparr> in
      case e_state e1 of
        kStateRunning \<Rightarrow> Inr \<lparr>engine = e1, out = ob, ret = 0\<rparr>
      | kStateStopping \<Rightarrow> Inr \<lparr>engine = e1\<lparr>e_state := kStateStopped\<rparr>, out = ob, ret = 1\<rparr>
      | kStateStopped \<Rightarrow> Inl AssertionFailed)"

definition audioCallback :: "'s Engine \<Rightarrow> 's CallbackArgs \<Rightarrow> fault + 's CallbackResult" where
  "audioCallback e a =
     (if \<not> cb_asserts e a then Inl AssertionFailed
      else case cb_copyInput e a of Inl f \<Rightarrow> Inl f | Inr e1 \<Rightarrow>
        (case cb_midi (log_call (PluginProcessBegin (frameCount a)) e1) a of Inl f \<Rightarrow> Inl f | Inr e2 \<Rightarrow>
          (let e3 = cb_process e2 a in
           case cb_copyOutput e3 a of Inl f \<Rightarrow> Inl f | Inr ob \<Rightarrow> cb_finish e3 a ob)))"

subsection \<open>loadPlugin, unloadPlugin, the destructor\<close>

text \<open>The flag is what \<^verbatim>\<open>_pluginHost->load(path, plugin_index)\<close> returns.\<close>

definition loadPlugin :: "'s Engine \<Rightarrow> bool \<Rightarrow> 's Engine \<times> bool" where
  "loadPlugin e loaded =
     (let e1 = log_call PluginLoad e
      in if \<not> loaded then (e1, False) else (log_call PluginSetParentWindow e1, True))"

definition unloadPlugin :: "'s Engine \<Rightarrow> 's Engine" where
  "unloadPlugin e =
     (log_call PluginUnload e)
       \<lparr>e_inputs0 := None, e_inputs1 := None, e_outputs0 := None, e_outputs1 := None\<rparr>"

definition destroy :: "'s Engine \<Rightarrow> 's Engine" where
  "destroy e = unloadPlugin (stop e)"

subsection \<open>Sequences of operations on one engine\<close>

datatype 's Op =
    OpStart Settings StartEnv
  | OpStop
  | OpCallback "'s CallbackArgs"
  | OpLoadPlugin bool
  | OpUnloadPlugin

fun step :: "('s::zero) Engine \<Rightarrow> 's Op \<Rightarrow> fault + 's Engine" where
  "step e (OpStart s env) = start e s env"
| "step e OpStop = Inr (stop e)"
| "step e (OpCallback a) = (case audioCallback e a of Inl f \<Rightarrow> Inl f | Inr r \<Rightarrow> Inr (engine r))"
| "step e (OpLoadPlugin loaded) = Inr (fst (loadPlugin e loaded))"
| "step e OpUnloadPlugin = Inr (unloadPlugin e)"

fun run :: "('s::zero) Engine \<Rightarrow> 's Op list \<Rightarrow> fault + 's Engine" where
  "run e [] = Inr e"
| "run e (op # ops) = (case step e op of Inl f \<Rightarrow> Inl f | Inr e' \<Rightarrow> run e' ops)"

text \<open>The frames an operation hands to the callback.\<close>

fun opFrames :: "'s Op \<Rightarrow> nat" where
  "opFrames (OpCallback a) = unat (frameCount a)"
| "opFrames _ = 0"

subsection \<open>Predicates of the statements\<close>

text \<open>
  An engine at rest: Stopped, no buffers, no device handles. This is the engine after
  construction and after every \<^verbatim>\<open>stop()\<close>.
\<close>

definition idle :: "'s Engine \<Rightarrow> bool" where
  "idle e =
     (e_state e = kStateStopped \<and> e_inputs0 e = None \<and> e_inputs1 e = None
      \<and> e_outputs0 e = None \<and> e_outputs1 e = None \<and> e_midiIn e = None \<and> e_audio e = None)"

definition bufferSizes :: "'s Engine \<Rightarrow> nat option \<times> nat option \<times> nat option \<times> nat option" where
  "bufferSizes e =
     (map_option length (e_inputs0 e), map_option length (e_inputs1 e),
      map_option length (e_outputs0 e), map_option length (e_outputs1 e))"


definition audioThrows :: "StartEnv \<Rightarrow> bool" where
  "audioThrows env =
     (audioCreate env = Throws \<or> audioOpenStream env = Throws \<or> pluginSetPorts env = Throws
      \<or> pluginActivate env = Throws \<or> audioStartStream env = Throws)"

definition midiThrows :: "StartEnv \<Rightarrow> bool" where
  "midiThrows env = (midiCreate env = Throws \<or> midiOpenPort env = Throws)"

text \<open>
  A failure to open the MIDI device: one of the two calls throws, or \<^verbatim>\<open>openPort\<close> returns
  and the port is not open.
\<close>

definition midiFails :: "StartEnv \<Rightarrow> bool" where
  "midiFails env =
     (midiCreate env = Throws \<or> midiOpenPort env = Throws \<or> midiOpenPort env = Returns False)"

text \<open>The calls on the MIDI port that the MIDI part of \<^verbatim>\<open>start()\<close> gets to make.\<close>

definition midiCalls :: "Settings \<Rightarrow> StartEnv \<Rightarrow> call list" where
  "midiCalls s env =
     (case midiCreate env of
        Throws \<Rightarrow> []
      | Returns _ \<Rightarrow>
          (case midiOpenPort env of
             Throws \<Rightarrow> [MidiOpenPort (midiIndex s)]
           | Returns _ \<Rightarrow> [MidiOpenPort (midiIndex s), MidiIgnoreTypes]))"

text \<open>
  What \<^verbatim>\<open>start()\<close> leaves of an engine apart from its MIDI input: every member but the
  MIDI handle, and the calls of the log that are not calls on the MIDI port.
\<close>

fun isMidiCall :: "call \<Rightarrow> bool" where
  "isMidiCall (MidiOpenPort _) = True"
| "isMidiCall MidiIgnoreTypes = True"
| "isMidiCall MidiClosePort = True"
| "isMidiCall _ = False"

definition audioPart ::
  "'s Engine \<Rightarrow> State \<times> 's list option \<times> 's list option \<times> 's list option \<times> 's list option
     \<times> RtAudio option \<times> uint32_t \<times> real \<times> int \<times> call list" where
  "audioPart e =
     (e_state e, e_inputs0 e, e_inputs1 e, e_outputs0 e, e_outputs1 e, e_audio e, e_nframes e,
      e_sampleRate e, e_steadyTime e, filter (\<lambda>c. \<not> isMidiCall c) (e_calls e))"

text \<open>The buffer sizes requested in the \<^verbatim>\<open>openStream\<close> calls of a log.\<close>

fun openStreamRequests :: "call list \<Rightarrow> uint32_t list" where
  "openStreamRequests [] = []"
| "openStreamRequests (AudioOpenStream _ _ b # cs) = b # openStreamRequests cs"
| "openStreamRequests (_ # cs) = openStreamRequests cs"

fun isCallback :: "'s Op \<Rightarrow> bool" where
  "isCallback (OpCallback _) = True"
| "isCallback _ = False"

subsection \<open>A scenario\<close>

text \<open>
  Settings, collaborators that all return, and a block of two frames with one note-on
  queued in the MIDI port: the inputs of the spec's scenarios, used to evaluate the
  model.
\<close>

definition scenarioSettings :: Settings where
  "scenarioSettings =
     \<lparr>midiApi = ''alsa'', midiIndex = 0, audioApi = ''alsa'', audioIndex = 0,
      as_sampleRate = 48000, as_bufferSize = 256\<rparr>"

definition scenarioEnv :: StartEnv where
  "scenarioEnv =
     \<lparr>midiCreate = Returns (), midiOpenPort = Returns True, audioCreate = Returns (),
      audioOpenStream = Returns 2, pluginSetPorts = Returns (), pluginActivate = Returns (),
      audioStartStream = Returns ()\<rparr>"

definition scenarioArgs :: "int CallbackArgs" where
  "scenarioArgs =
     \<lparr>outputBuffer = [0, 0, 0, 0, 9], inputBuffer = Some [5, 6, 7, 8], frameCount = 2,
      currentTime = 0, midiQueue = [([0x91, 60, 100], 0)],
      pluginProcess = (\<lambda>inL inR outL outR. (map uminus inL, map uminus inR))\<rparr>"

section \<open>Lemmas about the embedding\<close>

lemma stop_fields:
  "e_state (stop e) = kStateStopped"
  "e_inputs0 (stop e) = None" "e_inputs1 (stop e) = None"
  "e_outputs0 (stop e) = None" "e_outputs1 (stop e) = None"
  "e_midiIn (stop e) = None" "e_audio (stop e) = None"
  "e_steadyTime (stop e) = e_steadyTime e"
  "e_sampleRate (stop e) = e_sampleRate e"
  "e_nframes (stop e) = e_nframes e"
  by (simp_all add: stop_def stop_release_def stop_signal_def stop_midi_def stop_audio_def
        freeBuffers_def log_call_def Let_def split: option.splits)

lemma idle_stop: "idle (stop e)"
  by (simp add: idle_def stop_fields)

lemma stop_idle: "idle e \<Longrightarrow> stop e = log_call PluginDeactivate e"
  by (simp add: idle_def stop_def stop_release_def stop_signal_def stop_midi_def stop_audio_def
        freeBuffers_def log_call_def Let_def)

lemma start_midi_fields:
  "e_state (start_midi e s env) = e_state e"
  "e_inputs0 (start_midi e s env) = e_inputs0 e" "e_inputs1 (start_midi e s env) = e_inputs1 e"
  "e_outputs0 (start_midi e s env) = e_outputs0 e" "e_outputs1 (start_midi e s env) = e_outputs1 e"
  "e_audio (start_midi e s env) = e_audio e"
  "e_steadyTime (start_midi e s env) = e_steadyTime e"
  "e_sampleRate (start_midi e s env) = e_sampleRate e"
  "e_nframes (start_midi e s env) = e_nframes e"
  by (simp_all add: start_midi_def log_call_def Let_def split: outcome.splits)

lemma start_midi_throws: "midiThrows env \<Longrightarrow> e_midiIn (start_midi e s env) = None"
  by (auto simp add: midiThrows_def start_midi_def log_call_def Let_def split: outcome.splits)

lemma start_audio_prepare_fields:
  "e_state (start_audio_prepare e) = e_state e"
  "e_midiIn (start_audio_prepare e) = e_midiIn e"
  "e_audio (start_audio_prepare e) = None"
  "e_steadyTime (start_audio_prepare e) = e_steadyTime e"
  "e_sampleRate (start_audio_prepare e) = e_sampleRate e"
  "e_nframes (start_audio_prepare e) = e_nframes e"
  "e_calls (start_audio_prepare e) = e_calls e"
  by (simp_all add: start_audio_prepare_def allocateBuffers_def freeBuffers_def)

lemma start_audio_open_throws:
  "audioThrows env \<Longrightarrow>
     \<exists>e0. start_audio_open e s env = stop e0 \<and> e_steadyTime e0 = e_steadyTime e
        \<and> e_sampleRate e0 = e_sampleRate e"
  by (auto simp add: audioThrows_def start_audio_open_def log_call_def Let_def split: outcome.splits)

lemma start_audio_open_returns:
  "\<not> audioThrows env \<Longrightarrow>
     \<exists>n. audioOpenStream env = Returns n \<and>
       start_audio_open e s env =
         e\<lparr>e_state := kStateRunning, e_audio := Some \<lparr>streamOpen = True\<rparr>, e_nframes := n,
           e_calls := e_calls e @
             [AudioOpenStream (audioIndex s) (as_sampleRate s) (requestedBufferSize s),
              PluginSetPorts 2 2, PluginActivate (as_sampleRate s) n, AudioStartStream]\<rparr>"
  by (auto simp add: audioThrows_def start_audio_open_def log_call_def Let_def split: outcome.splits)


lemma stage_simps:
  "e_state (log_call c e) = e_state e"
  "e_steadyTime (log_call c e) = e_steadyTime e"
  "e_inputs0 (log_call c e) = e_inputs0 e" "e_inputs1 (log_call c e) = e_inputs1 e"
  "e_outputs0 (log_call c e) = e_outputs0 e" "e_outputs1 (log_call c e) = e_outputs1 e"
  "e_midiIn (log_call c e) = e_midiIn e" "e_audio (log_call c e) = e_audio e"
  "e_nframes (log_call c e) = e_nframes e" "e_sampleRate (log_call c e) = e_sampleRate e"
  by (simp_all add: log_call_def)

lemma length_overwrite: "length (overwrite old new) = length old"
  by (simp add: overwrite_def)

lemma copyInputLoop_Inr:
  "copyInputLoop k i inb l r = Inr (l', r') \<Longrightarrow>
     length l' = length l \<and> length r' = length r
     \<and> (k = 0 \<or> (i + k \<le> length l \<and> i + k \<le> length r \<and> 2 * (i + k) \<le> length inb))
     \<and> (\<forall>j. i \<le> j \<and> j < i + k \<longrightarrow> l' ! j = inb ! (2 * j) \<and> r' ! j = inb ! (2 * j + 1))
     \<and> (\<forall>j. j < i \<or> i + k \<le> j \<longrightarrow> l' ! j = l ! j \<and> r' ! j = r ! j)"
proof (induction k arbitrary: i l r)
  case 0
  then show ?case by auto
next
  case (Suc k)
  from Suc.prems have ok: "2 * i + 1 < length inb" "i < length l" "i < length r"
    and rec: "copyInputLoop k (Suc i) inb (l[i := inb ! (2 * i)]) (r[i := inb ! (2 * i + 1)]) = Inr (l', r')"
    by (auto split: if_splits)
  note ih = Suc.IH[OF rec]
  have here: "l' ! i = inb ! (2 * i) \<and> r' ! i = inb ! (2 * i + 1)"
    using ih ok by simp
  have later: "\<forall>j. Suc i \<le> j \<and> j < i + Suc k \<longrightarrow> l' ! j = inb ! (2 * j) \<and> r' ! j = inb ! (2 * j + 1)"
    using ih by simp
  have range: "\<forall>j. i \<le> j \<and> j < i + Suc k \<longrightarrow> l' ! j = inb ! (2 * j) \<and> r' ! j = inb ! (2 * j + 1)"
  proof (intro allI impI)
    fix j assume j: "i \<le> j \<and> j < i + Suc k"
    show "l' ! j = inb ! (2 * j) \<and> r' ! j = inb ! (2 * j + 1)"
    proof (cases "j = i")
      case True
      with here show ?thesis by simp
    next
      case False
      with j have "Suc i \<le> j \<and> j < i + Suc k" by simp
      with later show ?thesis by blast
    qed
  qed
  have other: "\<forall>j. j < i \<or> i + Suc k \<le> j \<longrightarrow> l' ! j = l ! j \<and> r' ! j = r ! j"
  proof (intro allI impI)
    fix j assume j: "j < i \<or> i + Suc k \<le> j"
    then have "j < Suc i \<or> Suc i + k \<le> j" and ne: "j \<noteq> i" by auto
    with ih have "l' ! j = (l[i := inb ! (2 * i)]) ! j \<and> r' ! j = (r[i := inb ! (2 * i + 1)]) ! j"
      by blast
    with ne show "l' ! j = l ! j \<and> r' ! j = r ! j" by simp
  qed
  have bounds: "i + Suc k \<le> length l \<and> i + Suc k \<le> length r"
    using ih ok by (cases "k = 0") auto
  from ih ok range other bounds show ?case by (cases "k = 0") auto
qed

lemma copyOutputLoop_Inr:
  "copyOutputLoop k i l r ob = Inr ob' \<Longrightarrow>
     length ob' = length ob
     \<and> (k = 0 \<or> (i + k \<le> length l \<and> i + k \<le> length r \<and> 2 * (i + k) \<le> length ob))
     \<and> (\<forall>j. i \<le> j \<and> j < i + k \<longrightarrow> ob' ! (2 * j) = l ! j \<and> ob' ! (2 * j + 1) = r ! j)
     \<and> (\<forall>m. m < 2 * i \<or> 2 * (i + k) \<le> m \<longrightarrow> ob' ! m = ob ! m)"
proof (induction k arbitrary: i ob)
  case 0
  then show ?case by auto
next
  case (Suc k)
  let ?ob1 = "ob[2 * i := l ! i, 2 * i + 1 := r ! i]"
  from Suc.prems have ok: "2 * i + 1 < length ob" "i < length l" "i < length r"
    and rec: "copyOutputLoop k (Suc i) l r ?ob1 = Inr ob'"
    by (auto split: if_splits)
  note ih = Suc.IH[OF rec]
  have here: "ob' ! (2 * i) = l ! i \<and> ob' ! (2 * i + 1) = r ! i"
  proof -
    have "ob' ! (2 * i) = ?ob1 ! (2 * i)" "ob' ! (2 * i + 1) = ?ob1 ! (2 * i + 1)"
      using ih by simp_all
    with ok show ?thesis by simp
  qed
  have range: "\<forall>j. i \<le> j \<and> j < i + Suc k \<longrightarrow> ob' ! (2 * j) = l ! j \<and> ob' ! (2 * j + 1) = r ! j"
  proof (intro allI impI)
    fix j assume j: "i \<le> j \<and> j < i + Suc k"
    show "ob' ! (2 * j) = l ! j \<and> ob' ! (2 * j + 1) = r ! j"
    proof (cases "j = i")
      case True
      with here show ?thesis by simp
    next
      case False
      with j have "Suc i \<le> j \<and> j < Suc i + k" by simp
      with ih show ?thesis by blast
    qed
  qed
  have other: "\<forall>m. m < 2 * i \<or> 2 * (i + Suc k) \<le> m \<longrightarrow> ob' ! m = ob ! m"
  proof (intro allI impI)
    fix m assume m: "m < 2 * i \<or> 2 * (i + Suc k) \<le> m"
    then have "m < 2 * Suc i \<or> 2 * (Suc i + k) \<le> m" and ne: "m \<noteq> 2 * i" "m \<noteq> 2 * i + 1" by auto
    with ih have "ob' ! m = ?ob1 ! m" by blast
    with ne show "ob' ! m = ob ! m" by simp
  qed
  have bounds: "i + Suc k \<le> length l \<and> i + Suc k \<le> length r"
    using ih ok by (cases "k = 0") auto
  from ih ok range other bounds show ?case by (cases "k = 0") auto
qed


lemma audioCallback_Inr:
  "audioCallback e a = Inr r \<Longrightarrow>
     cb_asserts e a \<and>
     (\<exists>e1 e2 ob. cb_copyInput e a = Inr e1
        \<and> cb_midi (log_call (PluginProcessBegin (frameCount a)) e1) a = Inr e2
        \<and> cb_copyOutput (cb_process e2 a) a = Inr ob
        \<and> cb_finish (cb_process e2 a) a ob = Inr r)"
  by (auto simp add: audioCallback_def Let_def split: if_splits sum.splits)

lemma cb_copyInput_frame:
  "cb_copyInput e a = Inr e1 \<Longrightarrow>
     e_state e1 = e_state e \<and> e_steadyTime e1 = e_steadyTime e
     \<and> e_outputs0 e1 = e_outputs0 e \<and> e_outputs1 e1 = e_outputs1 e
     \<and> e_midiIn e1 = e_midiIn e \<and> e_audio e1 = e_audio e \<and> e_nframes e1 = e_nframes e
     \<and> e_sampleRate e1 = e_sampleRate e \<and> e_calls e1 = e_calls e"
  by (auto simp add: cb_copyInput_def split: option.splits sum.splits prod.splits)

lemma cb_copyInput_none:
  "inputBuffer a = None \<Longrightarrow> cb_copyInput e a = Inr e"
  by (simp add: cb_copyInput_def)

lemma cb_copyInput_some:
  assumes "inputBuffer a = Some inb" "e_inputs0 e = Some l0" "e_inputs1 e = Some r0"
    and "cb_copyInput e a = Inr e1"
  shows "\<exists>l r. e_inputs0 e1 = Some l \<and> e_inputs1 e1 = Some r
     \<and> length l = length l0 \<and> length r = length r0
     \<and> (\<forall>i. i < unat (frameCount a) \<longrightarrow> l ! i = inb ! (2 * i) \<and> r ! i = inb ! (2 * i + 1))
     \<and> (\<forall>i. unat (frameCount a) \<le> i \<longrightarrow> l ! i = l0 ! i \<and> r ! i = r0 ! i)"
proof -
  from assms obtain l r where
    loop: "copyInputLoop (unat (frameCount a)) 0 inb l0 r0 = Inr (l, r)"
    and e1: "e1 = e\<lparr>e_inputs0 := Some l, e_inputs1 := Some r\<rparr>"
    by (auto simp add: cb_copyInput_def split: sum.splits prod.splits)
  from copyInputLoop_Inr[OF loop] e1 show ?thesis by simp
qed

lemma cb_midi_frame:
  "cb_midi e a = Inr e2 \<Longrightarrow>
     e_state e2 = e_state e \<and> e_steadyTime e2 = e_steadyTime e
     \<and> e_inputs0 e2 = e_inputs0 e \<and> e_inputs1 e2 = e_inputs1 e
     \<and> e_outputs0 e2 = e_outputs0 e \<and> e_outputs1 e2 = e_outputs1 e
     \<and> e_midiIn e2 = e_midiIn e \<and> e_audio e2 = e_audio e \<and> e_nframes e2 = e_nframes e
     \<and> e_sampleRate e2 = e_sampleRate e"
  by (auto simp add: cb_midi_def split: option.splits sum.splits if_splits)

lemma cb_process_frame:
  "e_state (cb_process e a) = e_state e" "e_steadyTime (cb_process e a) = e_steadyTime e"
  "e_inputs0 (cb_process e a) = e_inputs0 e" "e_inputs1 (cb_process e a) = e_inputs1 e"
  "e_midiIn (cb_process e a) = e_midiIn e" "e_audio (cb_process e a) = e_audio e"
  "e_nframes (cb_process e a) = e_nframes e" "e_sampleRate (cb_process e a) = e_sampleRate e"
  "map_option length (e_outputs0 (cb_process e a)) = Some (length (the (e_outputs0 e)))"
  "map_option length (e_outputs1 (cb_process e a)) = Some (length (the (e_outputs1 e)))"
  by (simp_all add: cb_process_def log_call_def Let_def length_overwrite)

lemma cb_finish_Inr:
  "cb_finish e a ob = Inr r \<Longrightarrow>
     out r = ob \<and> e_steadyTime (engine r) = e_steadyTime e + uint (frameCount a)
     \<and> e_inputs0 (engine r) = e_inputs0 e \<and> e_inputs1 (engine r) = e_inputs1 e
     \<and> e_outputs0 (engine r) = e_outputs0 e \<and> e_outputs1 (engine r) = e_outputs1 e
     \<and> e_midiIn (engine r) = e_midiIn e \<and> e_audio (engine r) = e_audio e
     \<and> e_nframes (engine r) = e_nframes e \<and> e_sampleRate (engine r) = e_sampleRate e
     \<and> (e_state e = kStateRunning \<and> ret r = 0 \<and> e_state (engine r) = kStateRunning
        \<or> e_state e = kStateStopping \<and> ret r = 1 \<and> e_state (engine r) = kStateStopped)"
  by (auto simp add: cb_finish_def Let_def split: State.splits)

lemma audioCallback_frame:
  assumes "audioCallback e a = Inr r"
  shows "e_steadyTime (engine r) = e_steadyTime e + uint (frameCount a)"
    and "e_midiIn (engine r) = e_midiIn e" and "e_audio (engine r) = e_audio e"
    and "e_nframes (engine r) = e_nframes e" and "e_sampleRate (engine r) = e_sampleRate e"
    and "bufferSizes (engine r) = bufferSizes e"
    and "e_state e = kStateRunning \<and> ret r = 0 \<and> e_state (engine r) = kStateRunning
        \<or> e_state e = kStateStopping \<and> ret r = 1 \<and> e_state (engine r) = kStateStopped"
proof -
  from audioCallback_Inr[OF assms] obtain e1 e2 ob where
    as: "cb_asserts e a" and
    s1: "cb_copyInput e a = Inr e1" and
    s2: "cb_midi (log_call (PluginProcessBegin (frameCount a)) e1) a = Inr e2" and
    s4: "cb_finish (cb_process e2 a) a ob = Inr r"
    by blast
  note f1 = cb_copyInput_frame[OF s1] and f2 = cb_midi_frame[OF s2] and f4 = cb_finish_Inr[OF s4]
  show "e_steadyTime (engine r) = e_steadyTime e + uint (frameCount a)"
    using f1 f2 f4 by (simp add: cb_process_frame stage_simps)
  show "e_midiIn (engine r) = e_midiIn e" using f1 f2 f4 by (simp add: cb_process_frame stage_simps)
  show "e_audio (engine r) = e_audio e" using f1 f2 f4 by (simp add: cb_process_frame stage_simps)
  show "e_nframes (engine r) = e_nframes e" using f1 f2 f4 by (simp add: cb_process_frame stage_simps)
  show "e_sampleRate (engine r) = e_sampleRate e" using f1 f2 f4 by (simp add: cb_process_frame stage_simps)
  show "e_state e = kStateRunning \<and> ret r = 0 \<and> e_state (engine r) = kStateRunning
        \<or> e_state e = kStateStopping \<and> ret r = 1 \<and> e_state (engine r) = kStateStopped"
    using f1 f2 f4 by (simp add: cb_process_frame stage_simps)
  from as obtain l0 r0 ol0 or0 where
    b: "e_inputs0 e = Some l0" "e_inputs1 e = Some r0" "e_outputs0 e = Some ol0" "e_outputs1 e = Some or0"
    by (auto simp add: cb_asserts_def)
  have in_len: "map_option length (e_inputs0 e1) = Some (length l0)
      \<and> map_option length (e_inputs1 e1) = Some (length r0)"
  proof (cases "inputBuffer a")
    case None
    with s1 b show ?thesis by (simp add: cb_copyInput_none)
  next
    case (Some inb)
    from cb_copyInput_some[OF Some b(1) b(2) s1] show ?thesis by auto
  qed
  show "bufferSizes (engine r) = bufferSizes e"
    using f1 f2 f4 b in_len by (simp add: bufferSizes_def cb_process_frame stage_simps)
qed





lemma round_half_even_int: "round_half_even (real_of_int N) = N"
  by (simp add: round_half_even_def Let_def)


lemma halvings_le: "x < 2 ^ Suc m \<Longrightarrow> halvings n x \<le> m"
proof (induction n arbitrary: x m)
  case 0
  then show ?case by simp
next
  case (Suc n)
  show ?case
  proof (cases "x < 2")
    case True
    then show ?thesis by simp
  next
    case False
    with Suc.prems obtain m' where m: "m = Suc m'" by (cases m) auto
    with Suc.prems have "x / 2 < 2 ^ Suc m'" by simp
    from Suc.IH[OF this] False m show ?thesis by simp
  qed
qed

lemma exponent_of_le: "x < 2 ^ Suc m \<Longrightarrow> exponent_of x \<le> int m"
  using halvings_le[of x m 1024] by (simp add: exponent_of_def)


lemma ulp_small:
  assumes "0 < x" and "x < 2 ^ 53"
  shows "\<exists>j. ulp x = 1 / 2 ^ j"
proof -
  have "exponent_of x \<le> 52" using exponent_of_le[of x 52] assms(2) by simp
  then have k: "exponent_of \<bar>x\<bar> - 52 \<le> 0" using assms(1) by simp
  show ?thesis
  proof (cases "exponent_of \<bar>x\<bar> - 52 = 0")
    case True
    then have "ulp x = 1 / 2 ^ 0" by (simp add: ulp_def pow2_def)
    then show ?thesis by blast
  next
    case False
    with k have "ulp x = 1 / 2 ^ nat (- (exponent_of \<bar>x\<bar> - 52))" by (simp add: ulp_def pow2_def)
    then show ?thesis by blast
  qed
qed


lemma round_double_nat:
  assumes "n < 2 ^ 53"
  shows "round_double (real n) = real n"
proof (cases "n = 0")
  case True
  then show ?thesis by (simp add: round_double_def)
next
  case False
  then have pos: "0 < real n" by simp
  have "real n < 2 ^ 53" using assms by (metis of_nat_less_iff of_nat_numeral of_nat_power)
  from ulp_small[OF pos this] obtain j where u: "ulp (real n) = 1 / 2 ^ j" by blast
  have "real n / ulp (real n) = real_of_int (int n * 2 ^ j)" using u by simp
  then have "round_half_even (real n / ulp (real n)) = int n * 2 ^ j"
    by (simp only: round_half_even_int)
  then have "real_of_int (round_half_even (real n / ulp (real n))) * ulp (real n) = real n"
    using u by simp
  with False show ?thesis by (simp add: round_double_def)
qed

lemma round_double_numeral: "numeral w < (2 ^ 53 :: nat) \<Longrightarrow> round_double (numeral w) = numeral w"
  using round_double_nat[of "numeral w"] by simp

lemma round_double_0: "round_double 0 = 0"
  by (simp add: round_double_def)

lemma round_double_1: "round_double 1 = 1"
  using round_double_nat[of 1] by simp



lemma to_double_0: "to_double 0 = Finite 0"
  by (simp add: to_double_def round_double_0 Let_def)

lemma to_double_1: "to_double 1 = Finite 1"
  by (simp add: to_double_def round_double_1 Let_def)

lemma to_double_numeral: "numeral w < (2 ^ 53 :: nat) \<Longrightarrow> to_double (numeral w) = Finite (numeral w)"
proof -
  assume w: "numeral w < (2 ^ 53 :: nat)"
  then have "real (numeral w) < 2 ^ 53" by (metis of_nat_less_iff of_nat_numeral of_nat_power)
  also have "(2::real) ^ 53 < 2 ^ 1024" by (rule power_strict_increasing) simp_all
  finally have "(numeral w :: real) < 2 ^ 1024" by simp
  moreover have "- (2 ^ 1024) < (numeral w :: real)"
    by (rule less_le_trans[of _ 0]) simp_all
  ultimately show ?thesis using w by (simp add: to_double_def round_double_numeral Let_def)
qed











text \<open>Unrolling the loops on a numeral, to evaluate them.\<close>

lemma copyInputLoop_unroll:
  "0 < k \<Longrightarrow> copyInputLoop k i inb l r =
     (if INT_MAX < 2 * i + 1 then Inl SignedOverflow
      else if 2 * i + 1 < length inb \<and> i < length l \<and> i < length r
        then copyInputLoop (k - 1) (Suc i) inb (l[i := inb ! (2 * i)]) (r[i := inb ! (2 * i + 1)])
      else Inl SampleBufferOutOfBounds)"
  by (cases k) simp_all

lemma copyOutputLoop_unroll:
  "0 < k \<Longrightarrow> copyOutputLoop k i l r ob =
     (if INT_MAX < 2 * i + 1 then Inl SignedOverflow
      else if 2 * i + 1 < length ob \<and> i < length l \<and> i < length r
        then copyOutputLoop (k - 1) (Suc i) l r (ob[2 * i := l ! i, 2 * i + 1 := r ! i])
      else Inl SampleBufferOutOfBounds)"
  by (cases k) simp_all

lemmas eval_defs = newEngine_def scenarioSettings_def scenarioEnv_def scenarioArgs_def
  start_def start_midi_def start_audio_def start_audio_prepare_def start_audio_open_def
  allocateBuffers_def freeBuffers_def calloc_def log_call_def requestedBufferSize_def
  stop_def stop_signal_def stop_release_def stop_audio_def stop_midi_def
  audioCallback_def cb_asserts_def cb_copyInput_def cb_midi_def cb_process_def cb_copyOutput_def
  cb_finish_def overwrite_def translate_def vectorAt_def sampleOffsetOf_def deltaSampleOf_def
  double_to_int32_def dispatch_def MIDI_STATUS_NOTE_ON_def INT_MAX_def unloadPlugin_def loadPlugin_def
  Let_def copyInputLoop_unroll copyOutputLoop_unroll to_double_0 to_double_1 to_double_numeral double_mul_def
  double_div_1000_def double_ge_def double_rsub_def


lemma translate_long:
  "3 \<le> length midiBuf \<Longrightarrow>
     translate fc sr ct midiBuf msgTime =
       (case sampleOffsetOf fc sr ct msgTime of
          Inl f \<Rightarrow> Inl f
        | Inr t \<Rightarrow> Inr (dispatch (drop_bit 4 (midiBuf ! 0)) t (midiBuf ! 0 AND 0xf) (midiBuf ! 1) (midiBuf ! 2)))"
  by (auto simp add: translate_def vectorAt_def Let_def split: sum.splits)

lemma translate_short:
  "midiBuf \<noteq> [] \<Longrightarrow> length midiBuf < 3 \<Longrightarrow> translate fc sr ct midiBuf msgTime = Inl MidiBufferOutOfBounds"
  by (cases midiBuf) (auto simp add: translate_def vectorAt_def Let_def)

lemma sampleOffsetOf_fault: "sampleOffsetOf fc sr ct msgTime \<noteq> Inl MidiBufferOutOfBounds"
  by (simp add: sampleOffsetOf_def double_to_int32_def Let_def split: double.splits)

lemma start_frame:
  assumes "start e s env = Inr e'"
  shows "e_steadyTime e' = e_steadyTime e" and "e_sampleRate e' = e_sampleRate e"
proof -
  let ?e1 = "start_audio_prepare (start_midi e s env)"
  from assms have e': "e' = start_audio_open ?e1 s env"
    by (simp add: start_def start_audio_def split: if_splits)
  have "e_steadyTime e' = e_steadyTime ?e1 \<and> e_sampleRate e' = e_sampleRate ?e1"
  proof (cases "audioThrows env")
    case True
    from start_audio_open_throws[OF True, of ?e1 s] e' show ?thesis
      by (auto simp add: stop_fields)
  next
    case False
    from start_audio_open_returns[OF False, of ?e1 s] e' show ?thesis by auto
  qed
  then show "e_steadyTime e' = e_steadyTime e" and "e_sampleRate e' = e_sampleRate e"
    by (simp_all add: start_audio_prepare_fields start_midi_fields)
qed

lemma step_steadyTime:
  assumes "step e op = Inr e'"
  shows "e_steadyTime e' = e_steadyTime e + int (opFrames op)"
proof (cases op)
  case (OpStart s env)
  with assms start_frame(1)[of e s env e'] show ?thesis by simp
next
  case OpStop
  with assms show ?thesis by (auto simp add: stop_fields)
next
  case (OpCallback a)
  with assms obtain r where r: "audioCallback e a = Inr r" and e': "e' = engine r"
    by (auto split: sum.splits)
  from audioCallback_frame(1)[OF r] e' OpCallback show ?thesis by simp
next
  case (OpLoadPlugin b)
  with assms show ?thesis by (auto simp add: loadPlugin_def log_call_def Let_def)
next
  case OpUnloadPlugin
  with assms show ?thesis by (auto simp add: unloadPlugin_def log_call_def)
qed

lemma run_steadyTime:
  "run e ops = Inr e' \<Longrightarrow> e_steadyTime e' = e_steadyTime e + int (sum_list (map opFrames ops))"
proof (induction ops arbitrary: e)
  case Nil
  then show ?case by simp
next
  case (Cons op ops)
  from Cons.prems obtain e1 where s: "step e op = Inr e1" and r: "run e1 ops = Inr e'"
    by (auto split: sum.splits)
  from Cons.IH[OF r] step_steadyTime[OF s] show ?case by simp
qed

lemma opFrames_not_callback: "\<not> isCallback op \<Longrightarrow> opFrames op = 0"
  by (cases op) simp_all

lemma frames_of_equal_blocks:
  "(\<forall>op \<in> set ops. isCallback op \<longrightarrow> opFrames op = F) \<Longrightarrow>
     sum_list (map opFrames ops) = length (filter isCallback ops) * F"
proof (induction ops)
  case Nil
  then show ?case by simp
next
  case (Cons op ops)
  then show ?case by (cases "isCallback op") (simp_all add: opFrames_not_callback)
qed

lemma cb_process_outputs:
  "e_outputs0 (cb_process e a) = Some (overwrite (the (e_outputs0 e)) (fst (pluginProcess a (the (e_inputs0 e)) (the (e_inputs1 e)) (the (e_outputs0 e)) (the (e_outputs1 e)))))"
  "e_outputs1 (cb_process e a) = Some (overwrite (the (e_outputs1 e)) (snd (pluginProcess a (the (e_inputs0 e)) (the (e_inputs1 e)) (the (e_outputs0 e)) (the (e_outputs1 e)))))"
  by (simp_all add: cb_process_def log_call_def Let_def)



lemma audioCallback_stopped: "e_state e = kStateStopped \<Longrightarrow> isl (audioCallback e a)"
proof (cases "audioCallback e a")
  case (Inl f)
  then show ?thesis by simp
next
  case (Inr r)
  assume "e_state e = kStateStopped"
  with audioCallback_frame(7)[OF Inr] show ?thesis by simp
qed

lemma stop_signal_running: "e_state e = kStateRunning \<Longrightarrow> e_state (stop_signal e) = kStateStopping"
  by (simp add: stop_signal_def log_call_def Let_def)



lemma openStreamRequests_append:
  "openStreamRequests (xs @ ys) = openStreamRequests xs @ openStreamRequests ys"
  by (induction xs rule: openStreamRequests.induct) simp_all

lemma stop_requests: "openStreamRequests (e_calls (stop e)) = openStreamRequests (e_calls e)"
  by (simp add: stop_def stop_release_def stop_signal_def stop_midi_def stop_audio_def
        freeBuffers_def log_call_def Let_def openStreamRequests_append split: option.splits)

lemma start_midi_requests:
  "openStreamRequests (e_calls (start_midi e s env)) = openStreamRequests (e_calls e)"
  by (simp add: start_midi_def log_call_def Let_def openStreamRequests_append split: outcome.splits)

lemma start_audio_open_requests:
  "openStreamRequests (e_calls (start_audio_open e s env)) =
     openStreamRequests (e_calls e) @
       (if audioCreate env = Throws then [] else [requestedBufferSize s])"
  by (simp add: start_audio_open_def stop_requests log_call_def Let_def openStreamRequests_append
        split: outcome.splits)

lemma start_requests:
  assumes "start e s env = Inr e'"
  shows "openStreamRequests (e_calls e') =
     openStreamRequests (e_calls e) @
       (if audioCreate env = Throws then [] else [requestedBufferSize s])"
proof -
  from assms have "e' = start_audio_open (start_audio_prepare (start_midi e s env)) s env"
    by (simp add: start_def start_audio_def split: if_splits)
  then show ?thesis
    by (simp add: start_audio_open_requests start_audio_prepare_fields start_midi_requests)
qed

lemma requestedBufferSize_value:
  assumes "0 \<le> as_bufferSize s"
  shows "uint (requestedBufferSize s) = min 32 (as_bufferSize s)"
proof -
  have "0 \<le> min 32 (as_bufferSize s)" "min 32 (as_bufferSize s) < 2 ^ 32"
    using assms by simp_all
  then show ?thesis
    unfolding requestedBufferSize_def by (simp add: uint_word_of_int take_bit_int_eq_self)
qed

lemma start_nframes:
  assumes "start e s env = Inr e'" and "\<not> audioThrows env"
  shows "audioOpenStream env = Returns (e_nframes e')" and "e_state e' = kStateRunning"
    and "e_midiIn e' = e_midiIn (start_midi e s env)"
proof -
  let ?e1 = "start_audio_prepare (start_midi e s env)"
  from assms have e': "e' = start_audio_open ?e1 s env"
    by (simp add: start_def start_audio_def split: if_splits)
  from start_audio_open_returns[OF assms(2), of ?e1 s] e'
  show "audioOpenStream env = Returns (e_nframes e')" and "e_state e' = kStateRunning"
    and "e_midiIn e' = e_midiIn (start_midi e s env)"
    by (auto simp add: start_audio_prepare_fields)
qed

lemma start_throws:
  assumes "e_state e = kStateStopped" and "audioThrows env"
  shows "\<exists>e0. start e s env = Inr (stop e0)"
  using start_audio_open_throws[OF assms(2), of "start_audio_prepare (start_midi e s env)" s] assms(1)
  by (auto simp add: start_def start_audio_def)

lemma reachable_stopped_idle:
  "run e ops = Inr e' \<Longrightarrow> e_state e \<noteq> kStateStopping \<Longrightarrow> (e_state e = kStateStopped \<longrightarrow> idle e)
     \<Longrightarrow> e_state e' \<noteq> kStateStopping \<and> (e_state e' = kStateStopped \<longrightarrow> idle e')"
proof (induction ops arbitrary: e)
  case Nil
  then show ?case by simp
next
  case (Cons op ops)
  from Cons.prems obtain e1 where s: "step e op = Inr e1" and r: "run e1 ops = Inr e'"
    by (auto split: sum.splits)
  have "e_state e1 \<noteq> kStateStopping \<and> (e_state e1 = kStateStopped \<longrightarrow> idle e1)"
  proof (cases op)
    case (OpStart st env)
    with s have st: "start e st env = Inr e1" by simp
    show ?thesis
    proof (cases "audioThrows env")
      case True
      from st have "e_state e = kStateStopped" by (simp add: start_def split: if_splits)
      from start_throws[OF this True, of st] st show ?thesis by (auto simp add: stop_fields idle_stop)
    next
      case False
      from start_nframes(2)[OF st False] show ?thesis by simp
    qed
  next
    case OpStop
    with s show ?thesis by (auto simp add: stop_fields idle_stop)
  next
    case (OpCallback a)
    with s obtain r where r: "audioCallback e a = Inr r" and e1: "e1 = engine r"
      by (auto split: sum.splits)
    from audioCallback_frame(7)[OF r] e1 Cons.prems(2) show ?thesis by auto
  next
    case (OpLoadPlugin b)
    with s Cons.prems(2,3) show ?thesis
      by (cases b) (auto simp add: loadPlugin_def log_call_def Let_def idle_def)
  next
    case OpUnloadPlugin
    with s Cons.prems(2,3) show ?thesis
      by (auto simp add: unloadPlugin_def log_call_def idle_def)
  qed
  with Cons.IH[OF r] show ?case by blast
qed

lemma copyOutputLoop_short:
  "length l < i + k \<Longrightarrow> i \<le> length l \<Longrightarrow> 2 * length l + 1 \<le> INT_MAX \<Longrightarrow>
     copyOutputLoop k i l r ob = Inl SampleBufferOutOfBounds"
proof (induction k arbitrary: i ob)
  case 0
  then show ?case by simp
next
  case (Suc k)
  from Suc.prems have noov: "\<not> INT_MAX < 2 * i + 1" by simp
  show ?case
  proof (cases "2 * i + 1 < length ob \<and> i < length l \<and> i < length r")
    case True
    with Suc.prems have "length l < Suc i + k" "Suc i \<le> length l" by simp_all
    from Suc.IH[OF this Suc.prems(3)] True noov show ?thesis by simp
  next
    case False
    with noov show ?thesis by auto
  qed
qed

lemma start_midi_fails:
  "midiFails env \<Longrightarrow>
     start_midi e s env =
       e\<lparr>e_midiIn := (if midiThrows env then None else Some \<lparr>portOpen = False\<rparr>),
         e_calls := e_calls e @ midiCalls s env\<rparr>"
  by (auto simp add: midiFails_def midiThrows_def midiCalls_def start_midi_def log_call_def Let_def
        split: outcome.splits)

lemma cb_midi_absent:
  "e_midiIn e = None \<or> e_midiIn e = Some \<lparr>portOpen = False\<rparr> \<Longrightarrow> cb_midi e a = Inr e"
  by (auto simp add: cb_midi_def)

lemma audioPart_stop:
  "audioPart e1 = audioPart e2 \<Longrightarrow> audioPart (stop e1) = audioPart (stop e2)"
  by (auto simp add: audioPart_def stop_def stop_release_def stop_signal_def stop_midi_def stop_audio_def
        freeBuffers_def log_call_def Let_def split: option.splits)

lemma audioPart_log: "audioPart e1 = audioPart e2 \<Longrightarrow> audioPart (log_call c e1) = audioPart (log_call c e2)"
  by (auto simp add: audioPart_def log_call_def)

lemma audioPart_upd1:
  "audioPart e1 = audioPart e2 \<Longrightarrow> audioPart (e1\<lparr>e_audio := a\<rparr>) = audioPart (e2\<lparr>e_audio := a\<rparr>)"
  by (simp add: audioPart_def)

lemma audioPart_upd3:
  "audioPart e1 = audioPart e2 \<Longrightarrow>
     audioPart (e1\<lparr>e_audio := a, e_nframes := n, e_state := st\<rparr>)
       = audioPart (e2\<lparr>e_audio := a, e_nframes := n, e_state := st\<rparr>)"
  by (simp add: audioPart_def)

lemma audioPart_start_audio_open:
  "audioPart e1 = audioPart e2 \<Longrightarrow>
     audioPart (start_audio_open e1 s env) = audioPart (start_audio_open e2 s env)"
  unfolding start_audio_open_def Let_def
  by (auto split: outcome.splits simp add: stage_simps
        intro!: audioPart_stop audioPart_log audioPart_upd1 audioPart_upd3)

lemma audioPart_start_midi:
  "audioPart (start_audio_prepare (start_midi e s env1)) = audioPart (start_audio_prepare (start_midi e s env2))"
  by (auto simp add: audioPart_def start_audio_prepare_def allocateBuffers_def freeBuffers_def calloc_def
        start_midi_def log_call_def Let_def split: outcome.splits)

lemma start_audio_open_midi_env:
  "start_audio_open e s (env\<lparr>midiCreate := a, midiOpenPort := b\<rparr>) = start_audio_open e s env"
  by (auto simp add: start_audio_open_def Let_def split: outcome.splits)

lemma audioPart_start:
  assumes "e_state e = kStateStopped"
  shows "\<exists>e1 e2. start e s env = Inr e1
     \<and> start e s (env\<lparr>midiCreate := a, midiOpenPort := b\<rparr>) = Inr e2
     \<and> audioPart e1 = audioPart e2"
proof -
  let ?env' = "env\<lparr>midiCreate := a, midiOpenPort := b\<rparr>"
  have "audioPart (start_audio_open (start_audio_prepare (start_midi e s env)) s env)
      = audioPart (start_audio_open (start_audio_prepare (start_midi e s ?env')) s env)"
    by (rule audioPart_start_audio_open) (rule audioPart_start_midi)
  with assms show ?thesis
    by (simp add: start_def start_audio_def start_audio_open_midi_env)
qed

section \<open>The claims\<close>

subsection \<open>C1: the sample offset of a MIDI event\<close>




subsection \<open>C2: stop() on a Stopped engine\<close>

text \<open>
  C2. The claim says that \<^verbatim>\<open>stop()\<close> on a Stopped engine makes no observable call on the
  plugin collaborator. The code calls \<^verbatim>\<open>_pluginHost->deactivate()\<close> first, whatever the state:
  on a freshly constructed engine the log of calls goes from empty to one
  \<open>PluginDeactivate\<close>.
\<close>

theorem C2_stop_calls_deactivate:
  "e_state (newEngine 48000 :: int Engine) = kStateStopped
   \<and> e_calls (newEngine 48000 :: int Engine) = []
   \<and> e_calls (stop (newEngine 48000 :: int Engine)) = [PluginDeactivate]"
  by (simp add: newEngine_def stop_def stop_release_def stop_signal_def stop_midi_def stop_audio_def
        freeBuffers_def log_call_def Let_def)

text \<open>
  C2, as amended. On an engine at rest (Stopped, buffers and device handles null),
  \<^verbatim>\<open>stop()\<close> changes no member of the engine: its only effect is one redundant call of
  \<^verbatim>\<open>deactivate()\<close> on the plugin host. After any \<^verbatim>\<open>stop()\<close> the engine is at rest, so a second
  \<^verbatim>\<open>stop()\<close> again changes nothing but the log of calls. Every Stopped engine that a
  sequence of operations reaches from a new engine is at rest.
\<close>

theorem C2_stop_on_stopped:
  "(idle e \<longrightarrow> stop e = log_call PluginDeactivate e)
   \<and> idle (stop e)
   \<and> stop (stop e) = log_call PluginDeactivate (stop e)
   \<and> (run (newEngine sr) ops = Inr e \<and> e_state e = kStateStopped \<longrightarrow>
        stop e = log_call PluginDeactivate e)"
proof -
  have "run (newEngine sr) ops = Inr e \<and> e_state e = kStateStopped \<longrightarrow> idle e"
    using reachable_stopped_idle[of "newEngine sr" ops e] by (auto simp add: newEngine_def idle_def)
  with stop_idle[of e] stop_idle[OF idle_stop, of e] idle_stop[of e] show ?thesis by blast
qed

theorem C2_stop_on_stopped_witness:
  "\<exists>e. run (newEngine 48000 :: int Engine)
          [OpStart scenarioSettings scenarioEnv, OpCallback scenarioArgs, OpStop] = Inr e
     \<and> e_state e = kStateStopped \<and> idle e
     \<and> stop e = log_call PluginDeactivate e"
proof -
  obtain e where r: "run (newEngine 48000 :: int Engine)
          [OpStart scenarioSettings scenarioEnv, OpCallback scenarioArgs, OpStop] = Inr e"
    by (simp add: eval_defs)
  then have s: "e_state e = kStateStopped" "idle e" by (auto simp add: eval_defs idle_def)
  from C2_stop_on_stopped[of e 48000 "[OpStart scenarioSettings scenarioEnv, OpCallback scenarioArgs, OpStop]"] r s
  show ?thesis by blast
qed

subsection \<open>C3: the buffer size requested from the driver\<close>

text \<open>
  C3. The claim makes the requested size the smaller of a driver-reported value and the
  user's value. No value of the driver enters the request: with 256 in the settings and a
  driver that settles on 512, \<^verbatim>\<open>openStream\<close> is asked for 32, which is not the smaller of
  512 and 256; the driver's 512 only comes back through \<^verbatim>\<open>&bufferSize\<close> into \<^verbatim>\<open>_nframes\<close>.
\<close>

theorem C3_request_ignores_driver_value:
  "map_sum id (\<lambda>e. (openStreamRequests (e_calls e), e_nframes e))
     (start (newEngine 48000 :: int Engine)
        (scenarioSettings\<lparr>as_bufferSize := 256\<rparr>) (scenarioEnv\<lparr>audioOpenStream := Returns 512\<rparr>))
     = Inr ([32], 512)
   \<and> (32 :: int) \<noteq> min 512 256"
  by (simp add: eval_defs)

text \<open>
  C3, as amended. In every \<^verbatim>\<open>start()\<close> that gets as far as \<^verbatim>\<open>openStream\<close>, the one buffer size
  requested from the driver is \<^verbatim>\<open>std::min<int>(32, as.bufferSize())\<close> converted to
  \<^verbatim>\<open>unsigned int\<close>: for every setting that is not negative, the smaller of the constant 32
  and the user's value. The block size the driver settles on is recorded in \<^verbatim>\<open>_nframes\<close>
  after the request.
\<close>

theorem C3_requested_buffer_size:
  assumes "start e s env = Inr e'"
  shows "openStreamRequests (e_calls e') =
       openStreamRequests (e_calls e) @
         (if audioCreate env = Throws then [] else [word_of_int (min 32 (as_bufferSize s))])
     \<and> (0 \<le> as_bufferSize s \<longrightarrow> uint (requestedBufferSize s) = min 32 (as_bufferSize s))
     \<and> (\<not> audioThrows env \<longrightarrow> audioOpenStream env = Returns (e_nframes e'))"
  using start_requests[OF assms] requestedBufferSize_value[of s] start_nframes(1)[OF assms]
  by (simp add: requestedBufferSize_def)

theorem C3_requested_buffer_size_witness:
  "\<exists>e'. start (newEngine 48000 :: int Engine) scenarioSettings scenarioEnv = Inr e'
     \<and> as_bufferSize scenarioSettings = 256
     \<and> openStreamRequests (e_calls e') = [32]
     \<and> e_nframes e' = 2"
proof -
  obtain e' where e': "start (newEngine 48000 :: int Engine) scenarioSettings scenarioEnv = Inr e'"
    by (simp add: eval_defs)
  from C3_requested_buffer_size[OF e'] e' show ?thesis
    by (simp add: newEngine_def scenarioSettings_def scenarioEnv_def audioThrows_def)
qed

subsection \<open>C4: a throw in start()\<close>

text \<open>
  C4. The claim lets any step of \<^verbatim>\<open>start()\<close> that throws unwind through \<^verbatim>\<open>stop()\<close>. The MIDI
  steps have a \<^verbatim>\<open>catch (...)\<close> of their own that only resets the MIDI handle: when the
  constructor of the MIDI input throws and the audio steps return, \<^verbatim>\<open>start()\<close> ends with
  the engine Running and the four buffers allocated.
\<close>

theorem C4_midi_throw_does_not_stop:
  "map_sum id (\<lambda>e. (e_state e, bufferSizes e, e_midiIn e))
     (start (newEngine 48000 :: int Engine) scenarioSettings (scenarioEnv\<lparr>midiCreate := Throws\<rparr>))
     = Inr (kStateRunning, (Some 8192, Some 8192, Some 8192, Some 8192), None)"
  by (simp add: eval_defs bufferSizes_def)

text \<open>
  C4, as amended. If any step of the audio part of \<^verbatim>\<open>start()\<close> throws (the constructor of
  the audio device, \<^verbatim>\<open>openStream\<close>, \<^verbatim>\<open>setPorts\<close>, \<^verbatim>\<open>activate\<close> or \<^verbatim>\<open>startStream\<close>), \<^verbatim>\<open>start()\<close> on
  a Stopped engine ends in \<^verbatim>\<open>stop()\<close>: the engine is Stopped, its four buffers and both
  device handles are null, its sample counter and sample rate are as before the call.
\<close>

theorem C4_audio_throw_unwinds:
  assumes "e_state e = kStateStopped" and "audioThrows env"
  shows "\<exists>e0. start e s env = Inr (stop e0) \<and> idle (stop e0)
     \<and> e_steadyTime (stop e0) = e_steadyTime e \<and> e_sampleRate (stop e0) = e_sampleRate e"
proof -
  from start_throws[OF assms] obtain e0 where e0: "start e s env = Inr (stop e0)" by blast
  from start_frame[OF e0] idle_stop[of e0] e0 show ?thesis by blast
qed

theorem C4_audio_throw_unwinds_witness:
  "map_sum id (\<lambda>e. (e_state e, bufferSizes e, e_midiIn e, e_audio e))
     (start (newEngine 48000 :: int Engine) scenarioSettings (scenarioEnv\<lparr>audioOpenStream := Throws\<rparr>))
     = Inr (kStateStopped, (None, None, None, None), None, None)"
proof -
  have "e_state (newEngine 48000 :: int Engine) = kStateStopped" by (simp add: newEngine_def)
  moreover have "audioThrows (scenarioEnv\<lparr>audioOpenStream := Throws\<rparr>)" by (simp add: audioThrows_def)
  ultimately obtain e0 where
    "start (newEngine 48000 :: int Engine) scenarioSettings (scenarioEnv\<lparr>audioOpenStream := Throws\<rparr>) = Inr (stop e0)"
    "idle (stop e0)"
    using C4_audio_throw_unwinds by blast
  then show ?thesis by (simp add: idle_def bufferSizes_def)
qed

subsection \<open>C5: the stream-continuation signal\<close>

text \<open>
  C5. A callback that returns found the engine Running, returns 0 and leaves it Running,
  or found it Stopping, returns 1 and leaves it Stopped; on a Stopped engine every
  callback faults (the \<^verbatim>\<open>default\<close> branch). So once the first half of \<^verbatim>\<open>stop()\<close> has turned a
  Running engine to Stopping, the next callback that returns gives the stop signal 1, and
  no callback after it returns at all.
\<close>

theorem C5_continuation_signal:
  "(audioCallback e a = Inr r \<longrightarrow>
      e_state e = kStateRunning \<and> ret r = 0 \<and> e_state (engine r) = kStateRunning
      \<or> e_state e = kStateStopping \<and> ret r = 1 \<and> e_state (engine r) = kStateStopped)
   \<and> (e_state e = kStateStopped \<longrightarrow> isl (audioCallback e a))
   \<and> (e_state e = kStateRunning \<and> audioCallback (stop_signal e) a = Inr r \<longrightarrow>
        ret r = 1 \<and> e_state (engine r) = kStateStopped \<and> (\<forall>a'. isl (audioCallback (engine r) a')))"
proof (intro conjI impI)
  assume "audioCallback e a = Inr r"
  from audioCallback_frame(7)[OF this]
  show "e_state e = kStateRunning \<and> ret r = 0 \<and> e_state (engine r) = kStateRunning
      \<or> e_state e = kStateStopping \<and> ret r = 1 \<and> e_state (engine r) = kStateStopped" .
next
  assume "e_state e = kStateStopped"
  then show "isl (audioCallback e a)" by (rule audioCallback_stopped)
next
  assume h: "e_state e = kStateRunning \<and> audioCallback (stop_signal e) a = Inr r"
  then have st: "e_state (stop_signal e) = kStateStopping" by (simp add: stop_signal_running)
  from h have cb: "audioCallback (stop_signal e) a = Inr r" by simp
  from audioCallback_frame(7)[OF cb] st
  have r: "ret r = 1" "e_state (engine r) = kStateStopped" by simp_all
  from r(2) have "\<forall>a'. isl (audioCallback (engine r) a')" by (simp add: audioCallback_stopped)
  with r show "ret r = 1" "e_state (engine r) = kStateStopped" "\<forall>a'. isl (audioCallback (engine r) a')"
    by simp_all
qed

theorem C5_continuation_signal_witness:
  "\<exists>e1 r1 r2. start (newEngine 48000 :: int Engine) scenarioSettings scenarioEnv = Inr e1
     \<and> e_state e1 = kStateRunning
     \<and> audioCallback e1 scenarioArgs = Inr r1 \<and> ret r1 = 0 \<and> e_state (engine r1) = kStateRunning
     \<and> audioCallback (stop_signal (engine r1)) scenarioArgs = Inr r2 \<and> ret r2 = 1
     \<and> e_state (engine r2) = kStateStopped
     \<and> isl (audioCallback (engine r2) scenarioArgs)"
proof -
  obtain e1 where e1: "start (newEngine 48000 :: int Engine) scenarioSettings scenarioEnv = Inr e1"
    by (simp add: eval_defs)
  then have s1: "e_state e1 = kStateRunning" by (auto simp add: eval_defs)
  obtain r1 where r1: "audioCallback e1 scenarioArgs = Inr r1"
    using e1 by (auto simp add: eval_defs)
  from C5_continuation_signal[of e1 scenarioArgs r1] r1 s1
  have s2: "ret r1 = 0" "e_state (engine r1) = kStateRunning" by simp_all
  obtain r2 where r2: "audioCallback (stop_signal (engine r1)) scenarioArgs = Inr r2"
    using e1 r1 by (auto simp add: eval_defs)
  from C5_continuation_signal[of "engine r1" scenarioArgs r2] r2 s2
  have s3: "ret r2 = 1" "e_state (engine r2) = kStateStopped" "isl (audioCallback (engine r2) scenarioArgs)"
    by simp_all
  from e1 s1 r1 s2 r2 s3 show ?thesis by blast
qed

subsection \<open>C6: the sample counter\<close>

text \<open>
  C6. Along any sequence of \<^verbatim>\<open>start()\<close>, \<^verbatim>\<open>stop()\<close>, callbacks, \<^verbatim>\<open>loadPlugin()\<close> and
  \<^verbatim>\<open>unloadPlugin()\<close> that runs without a fault, the counter grows by the frames of the
  callbacks and by nothing else: it never decreases, and after N callbacks of F frames
  each it has grown by N times F (from 0 for a new engine). The counter is an unbounded
  integer here; the declaration of \<^verbatim>\<open>_steadyTime\<close> is in \<^verbatim>\<open>engine.hh\<close>.
\<close>

theorem C6_steadyTime:
  assumes "run e ops = Inr e'"
  shows "e_steadyTime e' = e_steadyTime e + int (sum_list (map opFrames ops))
     \<and> e_steadyTime e \<le> e_steadyTime e'
     \<and> ((\<forall>op \<in> set ops. isCallback op \<longrightarrow> opFrames op = F) \<longrightarrow>
          e_steadyTime e' = e_steadyTime e + int (length (filter isCallback ops) * F))"
proof -
  have eq: "e_steadyTime e' = e_steadyTime e + int (sum_list (map opFrames ops))"
    using assms by (rule run_steadyTime)
  then have "e_steadyTime e \<le> e_steadyTime e'" by simp
  moreover have "(\<forall>op \<in> set ops. isCallback op \<longrightarrow> opFrames op = F) \<longrightarrow>
          e_steadyTime e' = e_steadyTime e + int (length (filter isCallback ops) * F)"
    using eq frames_of_equal_blocks[of ops F] by simp
  ultimately show ?thesis using eq by blast
qed

theorem C6_steadyTime_witness:
  "\<exists>e'. run (newEngine 48000 :: int Engine)
           [OpStart scenarioSettings scenarioEnv, OpCallback scenarioArgs, OpCallback scenarioArgs,
            OpStop, OpStart scenarioSettings scenarioEnv, OpCallback scenarioArgs, OpStop] = Inr e'
     \<and> e_steadyTime (newEngine 48000 :: int Engine) = 0
     \<and> e_steadyTime e' = 3 * 2"
proof -
  let ?ops = "[OpStart scenarioSettings scenarioEnv, OpCallback scenarioArgs, OpCallback scenarioArgs,
            OpStop, OpStart scenarioSettings scenarioEnv, OpCallback scenarioArgs, OpStop]"
  obtain e' where r: "run (newEngine 48000 :: int Engine) ?ops = Inr e'"
    by (simp add: eval_defs)
  from C6_steadyTime[OF r, of 2] have "e_steadyTime e' = 3 * 2"
    by (simp add: newEngine_def scenarioArgs_def)
  with r show ?thesis by (simp add: newEngine_def)
qed

subsection \<open>C7: the buffers while the engine is not Stopped\<close>

text \<open>
  C7. The claim is the invariant the callback asserts: while the engine is not Stopped,
  the four buffers are non-null and at least \<open>frameCount\<close> samples long. The code does not
  keep it. \<^verbatim>\<open>unloadPlugin()\<close> frees and nulls the buffers without looking at the state: on
  a Running engine the state stays Running, the four pointers are null, and the next
  callback fails its first \<^verbatim>\<open>assert\<close>. And the buffers always have 8192 samples (32 KiB),
  while the block size the driver settles on is recorded unchecked: if the driver answers
  16384, the engine runs with \<^verbatim>\<open>_nframes = 16384\<close>, the callback with 16384 frames passes
  every \<^verbatim>\<open>assert\<close> and the copy to the output buffer then reads beyond the 8192 samples.
\<close>

theorem C7_callback_with_missing_or_short_buffers:
  "map_sum id (\<lambda>e. (e_state e, bufferSizes e))
     (run (newEngine 48000 :: int Engine) [OpStart scenarioSettings scenarioEnv, OpUnloadPlugin])
     = Inr (kStateRunning, None, None, None, None)
   \<and> run (newEngine 48000 :: int Engine)
        [OpStart scenarioSettings scenarioEnv, OpUnloadPlugin, OpCallback scenarioArgs]
     = Inl AssertionFailed
   \<and> map_sum id (\<lambda>e. (e_state e, e_nframes e, bufferSizes e))
     (run (newEngine 48000 :: int Engine)
        [OpStart scenarioSettings (scenarioEnv\<lparr>audioOpenStream := Returns 16384\<rparr>)])
     = Inr (kStateRunning, 16384, Some 8192, Some 8192, Some 8192, Some 8192)
   \<and> run (newEngine 48000 :: int Engine)
        [OpStart scenarioSettings (scenarioEnv\<lparr>audioOpenStream := Returns 16384\<rparr>),
         OpCallback \<lparr>outputBuffer = replicate 32768 0, inputBuffer = None, frameCount = 16384,
                     currentTime = 0, midiQueue = [],
                     pluginProcess = (\<lambda>inL inR outL outR. (outL, outR))\<rparr>]
     = Inl SampleBufferOutOfBounds"
proof -
  have a: "map_sum id (\<lambda>e. (e_state e, bufferSizes e))
     (run (newEngine 48000 :: int Engine) [OpStart scenarioSettings scenarioEnv, OpUnloadPlugin])
     = Inr (kStateRunning, None, None, None, None)"
    by (simp add: eval_defs bufferSizes_def)
  have b: "run (newEngine 48000 :: int Engine)
        [OpStart scenarioSettings scenarioEnv, OpUnloadPlugin, OpCallback scenarioArgs]
     = Inl AssertionFailed"
    by (simp add: eval_defs)
  have c: "map_sum id (\<lambda>e. (e_state e, e_nframes e, bufferSizes e))
     (run (newEngine 48000 :: int Engine)
        [OpStart scenarioSettings (scenarioEnv\<lparr>audioOpenStream := Returns 16384\<rparr>)])
     = Inr (kStateRunning, 16384, Some 8192, Some 8192, Some 8192, Some 8192)"
    by (simp add: eval_defs bufferSizes_def)
  have d: "run (newEngine 48000 :: int Engine)
        [OpStart scenarioSettings (scenarioEnv\<lparr>audioOpenStream := Returns 16384\<rparr>),
         OpCallback \<lparr>outputBuffer = replicate 32768 0, inputBuffer = None, frameCount = 16384,
                     currentTime = 0, midiQueue = [],
                     pluginProcess = (\<lambda>inL inR outL outR. (outL, outR))\<rparr>]
     = Inl SampleBufferOutOfBounds"
    by (simp add: newEngine_def scenarioSettings_def scenarioEnv_def
        start_def start_midi_def start_audio_def start_audio_prepare_def start_audio_open_def
        allocateBuffers_def freeBuffers_def calloc_def log_call_def requestedBufferSize_def
        audioCallback_def cb_asserts_def cb_copyInput_def cb_midi_def cb_process_def
        cb_copyOutput_def overwrite_def INT_MAX_def Let_def copyOutputLoop_short)
  from a b c d show ?thesis by blast
qed

subsection \<open>C8: de-interleaving and re-interleaving\<close>

text \<open>
  C8. A callback that returns has copied exactly \<open>frameCount\<close> frames each way. With an
  input buffer, sample \<open>i\<close> of the left input channel is \<open>in[2i]\<close> and of the right one
  \<open>in[2i+1]\<close> for \<open>i < frameCount\<close>, and the channels are unchanged from \<open>frameCount\<close> on;
  with no input buffer the input channels are untouched. The output buffer holds
  \<open>out[2i] = left[i]\<close> and \<open>out[2i+1] = right[i]\<close> for \<open>i < frameCount\<close>, where left and right
  are the output channels as the plugin left them, and is unchanged from \<open>2 * frameCount\<close>
  on.
\<close>

theorem C8_interleaving:
  assumes "audioCallback e a = Inr r"
  shows "\<exists>inL inR outL outR.
       e_inputs0 (engine r) = Some inL \<and> e_inputs1 (engine r) = Some inR
     \<and> e_outputs0 (engine r) = Some outL \<and> e_outputs1 (engine r) = Some outR
     \<and> (case inputBuffer a of
          None \<Rightarrow> e_inputs0 e = Some inL \<and> e_inputs1 e = Some inR
        | Some inb \<Rightarrow>
            (\<forall>i. i < unat (frameCount a) \<longrightarrow> inL ! i = inb ! (2 * i) \<and> inR ! i = inb ! (2 * i + 1))
            \<and> (\<forall>i. unat (frameCount a) \<le> i \<longrightarrow>
                  inL ! i = the (e_inputs0 e) ! i \<and> inR ! i = the (e_inputs1 e) ! i)
            \<and> length inL = length (the (e_inputs0 e)) \<and> length inR = length (the (e_inputs1 e)))
     \<and> length (out r) = length (outputBuffer a)
     \<and> (\<forall>i. i < unat (frameCount a) \<longrightarrow> out r ! (2 * i) = outL ! i \<and> out r ! (2 * i + 1) = outR ! i)
     \<and> (\<forall>m. 2 * unat (frameCount a) \<le> m \<longrightarrow> out r ! m = outputBuffer a ! m)"
proof -
  from audioCallback_Inr[OF assms] obtain e1 e2 ob where
    as: "cb_asserts e a" and
    s1: "cb_copyInput e a = Inr e1" and
    s2: "cb_midi (log_call (PluginProcessBegin (frameCount a)) e1) a = Inr e2" and
    s3: "cb_copyOutput (cb_process e2 a) a = Inr ob" and
    s4: "cb_finish (cb_process e2 a) a ob = Inr r"
    by blast
  note f1 = cb_copyInput_frame[OF s1] and f2 = cb_midi_frame[OF s2] and f4 = cb_finish_Inr[OF s4]
  from as obtain l0 r0 where b: "e_inputs0 e = Some l0" "e_inputs1 e = Some r0"
    by (auto simp add: cb_asserts_def)
  obtain outL outR where o: "e_outputs0 (cb_process e2 a) = Some outL" "e_outputs1 (cb_process e2 a) = Some outR"
    by (simp add: cb_process_outputs)
  have ins: "e_inputs0 (engine r) = e_inputs0 e1" "e_inputs1 (engine r) = e_inputs1 e1"
    using f2 f4 by (simp_all add: cb_process_frame stage_simps)
  have outs: "e_outputs0 (engine r) = Some outL" "e_outputs1 (engine r) = Some outR" "out r = ob"
    using f4 o by simp_all
  from s3 o have loop: "copyOutputLoop (unat (frameCount a)) 0 outL outR (outputBuffer a) = Inr ob"
    by (simp add: cb_copyOutput_def)
  from copyOutputLoop_Inr[OF loop]
  have outp: "length ob = length (outputBuffer a)"
    "\<forall>i. i < unat (frameCount a) \<longrightarrow> ob ! (2 * i) = outL ! i \<and> ob ! (2 * i + 1) = outR ! i"
    "\<forall>m. 2 * unat (frameCount a) \<le> m \<longrightarrow> ob ! m = outputBuffer a ! m"
    by simp_all
  show ?thesis
  proof (cases "inputBuffer a")
    case None
    with s1 have "e1 = e" by (simp add: cb_copyInput_none)
    with None b ins outs outp show ?thesis by simp
  next
    case (Some inb)
    from cb_copyInput_some[OF Some b s1] obtain l r' where
      lr: "e_inputs0 e1 = Some l" "e_inputs1 e1 = Some r'" "length l = length l0" "length r' = length r0"
        "\<forall>i. i < unat (frameCount a) \<longrightarrow> l ! i = inb ! (2 * i) \<and> r' ! i = inb ! (2 * i + 1)"
        "\<forall>i. unat (frameCount a) \<le> i \<longrightarrow> l ! i = l0 ! i \<and> r' ! i = r0 ! i"
      by blast
    with Some b ins outs outp show ?thesis by simp
  qed
qed

theorem C8_interleaving_witness:
  "\<exists>e1 r. start (newEngine 48000 :: int Engine) scenarioSettings scenarioEnv = Inr e1
     \<and> audioCallback e1 scenarioArgs = Inr r
     \<and> inputBuffer scenarioArgs = Some [5, 6, 7, 8]
     \<and> the (e_inputs0 (engine r)) ! 0 = 5 \<and> the (e_inputs1 (engine r)) ! 0 = 6
     \<and> the (e_inputs0 (engine r)) ! 1 = 7 \<and> the (e_inputs1 (engine r)) ! 1 = 8
     \<and> the (e_inputs0 (engine r)) ! 2 = 0 \<and> the (e_inputs1 (engine r)) ! 2 = 0
     \<and> the (e_outputs0 (engine r)) ! 0 = - 5 \<and> the (e_outputs1 (engine r)) ! 0 = - 6
     \<and> the (e_outputs0 (engine r)) ! 1 = - 7 \<and> the (e_outputs1 (engine r)) ! 1 = - 8
     \<and> out r = [- 5, - 6, - 7, - 8, 9]"
proof -
  obtain e1 where e1: "start (newEngine 48000 :: int Engine) scenarioSettings scenarioEnv = Inr e1"
    by (simp add: eval_defs)
  obtain r where r: "audioCallback e1 scenarioArgs = Inr r"
    using e1 by (auto simp add: eval_defs)
  have v: "inputBuffer scenarioArgs = Some [5, 6, 7, 8]
     \<and> the (e_inputs0 (engine r)) ! 0 = 5 \<and> the (e_inputs1 (engine r)) ! 0 = 6
     \<and> the (e_inputs0 (engine r)) ! 1 = 7 \<and> the (e_inputs1 (engine r)) ! 1 = 8
     \<and> the (e_inputs0 (engine r)) ! 2 = 0 \<and> the (e_inputs1 (engine r)) ! 2 = 0
     \<and> the (e_outputs0 (engine r)) ! 0 = - 5 \<and> the (e_outputs1 (engine r)) ! 0 = - 6
     \<and> the (e_outputs0 (engine r)) ! 1 = - 7 \<and> the (e_outputs1 (engine r)) ! 1 = - 8
     \<and> out r = [- 5, - 6, - 7, - 8, 9]"
    using e1 r C8_interleaving[OF r] by (auto simp add: eval_defs)
  with e1 r show ?thesis by blast
qed

subsection \<open>C9: a failure to open the MIDI device\<close>

text \<open>
  C9. The claim has the MIDI handle reset to null after every failure to open the MIDI
  device. Only an exception reaches the \<^verbatim>\<open>catch (...)\<close> that resets it: when \<^verbatim>\<open>openPort\<close>
  returns and the port is not open, the handle stays non-null, with its port closed.
\<close>

theorem C9_handle_kept_when_openPort_returns:
  "map_sum id (\<lambda>e. (e_state e, e_midiIn e))
     (start (newEngine 48000 :: int Engine) scenarioSettings
        (scenarioEnv\<lparr>midiOpenPort := Returns False\<rparr>))
     = Inr (kStateRunning, Some \<lparr>portOpen = False\<rparr>)
   \<and> midiFails (scenarioEnv\<lparr>midiOpenPort := Returns False\<rparr>)
   \<and> Some \<lparr>portOpen = False\<rparr> \<noteq> (None :: RtMidiIn option)"
  by (simp add: eval_defs midiFails_def)

text \<open>
  C9, as amended. After every failure to open the MIDI device (the constructor of the MIDI
  input or \<^verbatim>\<open>openPort\<close> throws, or \<^verbatim>\<open>openPort\<close> returns with the port not open), \<^verbatim>\<open>start()\<close> on
  a Stopped engine returns with MIDI input absent: the handle is null after an exception
  and non-null with a closed port otherwise, and a callback drains no message either way.
  The audio steps run as with a working MIDI device: apart from the MIDI handle and the
  calls on the MIDI port, \<^verbatim>\<open>start()\<close> leaves the engine it leaves when the MIDI device opens.
  If none of the audio steps throws, the engine is Running with four zeroed buffers of 8192 samples, the stream open, the driver's
  block size in \<^verbatim>\<open>_nframes\<close>, and \<^verbatim>\<open>openStream\<close>, \<^verbatim>\<open>setPorts\<close>, \<^verbatim>\<open>activate\<close> and \<^verbatim>\<open>startStream\<close> called in
  this order after the MIDI calls; if one throws, the engine is at rest, and \<^verbatim>\<open>openStream\<close>
  was requested whenever the audio device could be constructed.
\<close>

theorem C9_midi_failure_not_fatal:
  assumes "e_state e = kStateStopped" and "midiFails env"
  shows "\<exists>e'. start e s env = Inr e'
     \<and> e_midiIn e' = (if midiThrows env \<or> audioThrows env then None else Some \<lparr>portOpen = False\<rparr>)
     \<and> (\<forall>a. cb_midi e' a = Inr e')
     \<and> (\<exists>e''. start e s (env\<lparr>midiCreate := Returns (), midiOpenPort := Returns True\<rparr>) = Inr e''
            \<and> audioPart e' = audioPart e'')
     \<and> (\<not> audioThrows env \<longrightarrow>
          (\<exists>n. audioOpenStream env = Returns n \<and>
             e' = e\<lparr>e_state := kStateRunning,
                    e_inputs0 := Some (replicate 8192 0), e_inputs1 := Some (replicate 8192 0),
                    e_outputs0 := Some (replicate 8192 0), e_outputs1 := Some (replicate 8192 0),
                    e_midiIn := (if midiThrows env then None else Some \<lparr>portOpen = False\<rparr>),
                    e_audio := Some \<lparr>streamOpen = True\<rparr>, e_nframes := n,
                    e_calls := e_calls e @ midiCalls s env @
                      [AudioOpenStream (audioIndex s) (as_sampleRate s) (requestedBufferSize s),
                       PluginSetPorts 2 2, PluginActivate (as_sampleRate s) n,
                       AudioStartStream]\<rparr>))
     \<and> (audioThrows env \<longrightarrow>
          idle e' \<and> e_steadyTime e' = e_steadyTime e
          \<and> openStreamRequests (e_calls e') =
               openStreamRequests (e_calls e) @
                 (if audioCreate env = Throws then [] else [requestedBufferSize s]))"
proof -
  from assms(1) obtain e' where e': "start e s env = Inr e'" by (simp add: start_def)
  let ?m = "start_midi e s env"
  have m: "?m = e\<lparr>e_midiIn := (if midiThrows env then None else Some \<lparr>portOpen = False\<rparr>),
         e_calls := e_calls e @ midiCalls s env\<rparr>"
    using assms(2) by (rule start_midi_fails)
  from e' assms(1) have open': "e' = start_audio_open (start_audio_prepare ?m) s env"
    by (simp add: start_def start_audio_def)
  have same: "\<exists>e''. start e s (env\<lparr>midiCreate := Returns (), midiOpenPort := Returns True\<rparr>) = Inr e''
            \<and> audioPart e' = audioPart e''"
    using audioPart_start[OF assms(1), where s = s and env = env and a = "Returns ()" and b = "Returns True"] e'
    by auto
  show ?thesis
  proof (cases "audioThrows env")
    case True
    from start_throws[OF assms(1) True, of s] e' obtain e0 where e0: "e' = stop e0" by auto
    then have "e_midiIn e' = None" "idle e'" by (simp_all add: stop_fields idle_stop)
    moreover from this have "\<forall>a. cb_midi e' a = Inr e'" by (simp add: cb_midi_absent)
    moreover have "e_steadyTime e' = e_steadyTime e" using start_frame(1)[OF e'] .
    ultimately show ?thesis using True e' start_requests[OF e'] same by simp
  next
    case False
    from start_audio_open_returns[OF False, of "start_audio_prepare ?m" s] open'
    obtain n where n: "audioOpenStream env = Returns n"
      and eq: "e' = (start_audio_prepare ?m)\<lparr>e_state := kStateRunning,
           e_audio := Some \<lparr>streamOpen = True\<rparr>, e_nframes := n,
           e_calls := e_calls (start_audio_prepare ?m) @
             [AudioOpenStream (audioIndex s) (as_sampleRate s) (requestedBufferSize s),
              PluginSetPorts 2 2, PluginActivate (as_sampleRate s) n, AudioStartStream]\<rparr>"
      by auto
    have full: "e' = e\<lparr>e_state := kStateRunning,
                    e_inputs0 := Some (replicate 8192 0), e_inputs1 := Some (replicate 8192 0),
                    e_outputs0 := Some (replicate 8192 0), e_outputs1 := Some (replicate 8192 0),
                    e_midiIn := (if midiThrows env then None else Some \<lparr>portOpen = False\<rparr>),
                    e_audio := Some \<lparr>streamOpen = True\<rparr>, e_nframes := n,
                    e_calls := e_calls e @ midiCalls s env @
                      [AudioOpenStream (audioIndex s) (as_sampleRate s) (requestedBufferSize s),
                       PluginSetPorts 2 2, PluginActivate (as_sampleRate s) n,
                       AudioStartStream]\<rparr>"
      unfolding eq using m
      by (simp add: start_audio_prepare_def allocateBuffers_def freeBuffers_def calloc_def)
    then have mid: "e_midiIn e' = (if midiThrows env then None else Some \<lparr>portOpen = False\<rparr>)"
      by simp
    then have "\<forall>a. cb_midi e' a = Inr e'" by (simp add: cb_midi_absent)
    with False e' n full mid same show ?thesis by auto
  qed
qed

theorem C9_midi_failure_not_fatal_witness:
  "map_sum id (\<lambda>e. (e_state e, e_midiIn e, bufferSizes e, e_audio e, e_nframes e, e_calls e))
     (start (newEngine 48000 :: int Engine) scenarioSettings (scenarioEnv\<lparr>midiOpenPort := Throws\<rparr>))
     = Inr (kStateRunning, None, (Some 8192, Some 8192, Some 8192, Some 8192),
            Some \<lparr>streamOpen = True\<rparr>, 2,
            [MidiOpenPort 0, AudioOpenStream 0 48000 32, PluginSetPorts 2 2,
             PluginActivate 48000 2, AudioStartStream])"
proof -
  let ?env = "scenarioEnv\<lparr>midiOpenPort := Throws\<rparr>"
  have "e_state (newEngine 48000 :: int Engine) = kStateStopped" by (simp add: newEngine_def)
  moreover have "midiFails ?env" by (simp add: midiFails_def)
  ultimately obtain e' where
    e': "start (newEngine 48000 :: int Engine) scenarioSettings ?env = Inr e'"
    and f: "\<not> audioThrows ?env \<longrightarrow>
          (\<exists>n. audioOpenStream ?env = Returns n \<and>
             e' = (newEngine 48000)\<lparr>e_state := kStateRunning,
                    e_inputs0 := Some (replicate 8192 0), e_inputs1 := Some (replicate 8192 0),
                    e_outputs0 := Some (replicate 8192 0), e_outputs1 := Some (replicate 8192 0),
                    e_midiIn := (if midiThrows ?env then None else Some \<lparr>portOpen = False\<rparr>),
                    e_audio := Some \<lparr>streamOpen = True\<rparr>, e_nframes := n,
                    e_calls := e_calls (newEngine 48000 :: int Engine) @ midiCalls scenarioSettings ?env @
                      [AudioOpenStream (audioIndex scenarioSettings) (as_sampleRate scenarioSettings)
                         (requestedBufferSize scenarioSettings),
                       PluginSetPorts 2 2, PluginActivate (as_sampleRate scenarioSettings) n,
                       AudioStartStream]\<rparr>)"
    using C9_midi_failure_not_fatal[of "newEngine 48000 :: int Engine" ?env scenarioSettings]
    by blast
  have "\<not> audioThrows ?env" by (simp add: audioThrows_def scenarioEnv_def)
  with f e' show ?thesis
    by (auto simp add: scenarioEnv_def scenarioSettings_def newEngine_def requestedBufferSize_def
          midiThrows_def midiCalls_def bufferSizes_def)
qed

subsection \<open>C10: the reads of bytes 1 and 2\<close>

text \<open>
  C10. For a non-empty message, the translator reads \<^verbatim>\<open>midiBuf[1]\<close> and \<^verbatim>\<open>midiBuf[2]\<close> before
  it looks at the event type, so the read is outside the message exactly when the message
  has fewer than three bytes, whatever its status byte; the drain loop and the whole
  callback fault there.
\<close>

theorem C10_short_message_read:
  assumes "midiBuf \<noteq> []"
  shows "(translate fc sr ct midiBuf msgTime = Inl MidiBufferOutOfBounds) = (length midiBuf < 3)
     \<and> (length midiBuf < 3 \<longrightarrow>
          drainMidi fc sr ct ((midiBuf, msgTime) # q) = Inl MidiBufferOutOfBounds)
     \<and> (length midiBuf < 3 \<and> cb_asserts e a \<and> inputBuffer a = None
          \<and> e_midiIn e = Some \<lparr>portOpen = True\<rparr> \<and> frameCount a = fc \<and> e_sampleRate e = sr
          \<and> currentTime a = ct \<and> midiQueue a = (midiBuf, msgTime) # q \<longrightarrow>
          audioCallback e a = Inl MidiBufferOutOfBounds)"
proof (intro conjI impI)
  show "(translate fc sr ct midiBuf msgTime = Inl MidiBufferOutOfBounds) = (length midiBuf < 3)"
  proof (cases "length midiBuf < 3")
    case True
    with translate_short[OF assms] show ?thesis by simp
  next
    case False
    then have "3 \<le> length midiBuf" by simp
    from translate_long[OF this] sampleOffsetOf_fault[of fc sr ct msgTime] False
    show ?thesis by (auto split: sum.splits)
  qed
next
  assume "length midiBuf < 3"
  with translate_short[OF assms] assms
  show "drainMidi fc sr ct ((midiBuf, msgTime) # q) = Inl MidiBufferOutOfBounds" by simp
next
  assume h: "length midiBuf < 3 \<and> cb_asserts e a \<and> inputBuffer a = None
          \<and> e_midiIn e = Some \<lparr>portOpen = True\<rparr> \<and> frameCount a = fc \<and> e_sampleRate e = sr
          \<and> currentTime a = ct \<and> midiQueue a = (midiBuf, msgTime) # q"
  with translate_short[OF assms] assms
  show "audioCallback e a = Inl MidiBufferOutOfBounds"
    by (simp add: audioCallback_def cb_copyInput_def cb_midi_def log_call_def)
qed

theorem C10_short_message_read_witness:
  "\<exists>e1. start (newEngine 48000 :: int Engine) scenarioSettings scenarioEnv = Inr e1
     \<and> translate 2 48000 0 [0xF8] 0 = Inl MidiBufferOutOfBounds
     \<and> drainMidi 2 48000 0 [([0xC0, 5], 0)] = Inl MidiBufferOutOfBounds
     \<and> translate 2 48000 0 [0x91, 60, 100] 0 \<noteq> Inl MidiBufferOutOfBounds
     \<and> audioCallback e1 (scenarioArgs\<lparr>inputBuffer := None, midiQueue := [([0xF8], 0)]\<rparr>)
         = Inl MidiBufferOutOfBounds"
proof -
  let ?a = "scenarioArgs\<lparr>inputBuffer := None, midiQueue := [([0xF8], 0)]\<rparr>"
  obtain e1 where e1: "start (newEngine 48000 :: int Engine) scenarioSettings scenarioEnv = Inr e1"
    by (simp add: eval_defs)
  then have h: "cb_asserts e1 ?a \<and> inputBuffer ?a = None \<and> e_midiIn e1 = Some \<lparr>portOpen = True\<rparr>
      \<and> frameCount ?a = 2 \<and> e_sampleRate e1 = 48000 \<and> currentTime ?a = 0
      \<and> midiQueue ?a = [([0xF8], 0)]"
    by (auto simp add: eval_defs)
  from C10_short_message_read[of "[0xF8]" 2 48000 0 0 "[]" e1 ?a] h
    C10_short_message_read[of "[0xC0, 5]" 2 48000 0 0 "[]" e1 ?a]
    C10_short_message_read[of "[0x91, 60, 100]" 2 48000 0 0 "[]" e1 ?a]
  have "translate 2 48000 0 [0xF8] 0 = Inl MidiBufferOutOfBounds
     \<and> drainMidi 2 48000 0 [([0xC0, 5], 0)] = Inl MidiBufferOutOfBounds
     \<and> translate 2 48000 0 [0x91, 60, 100] 0 \<noteq> Inl MidiBufferOutOfBounds
     \<and> audioCallback e1 ?a = Inl MidiBufferOutOfBounds"
    by simp
  with e1 show ?thesis by blast
qed

end
